theory Spec2Isabelle
  imports Complex_Main
begin

section \<open>Arrays\<close>

text \<open>
  The layer of \<^verbatim>\<open>conv_layer.py\<close> keeps four-dimensional numpy arrays of float64 and
  works on them through padding, slicing, strided views and index contractions. An array
  is modelled by its shape and its elements in row-major (C) order, which is how numpy
  lays out every array the layer allocates. float64 values are modelled by reals: sums
  and products are exact, and a division whose divisor is zero or a square root of a
  negative number (numpy continues with \<open>inf\<close> or \<open>nan\<close> there) ends the call with
  \<open>NonFinite\<close>. On arrays whose entries are small whole numbers, as in every concrete
  layer evaluated below, float64 arithmetic is exact as well.
\<close>

datatype error = ValueError | IndexError | ZeroDivisionError | OutOfBounds | NonFinite

type_synonym shape4 = "nat \<times> nat \<times> nat \<times> nat"

definition sh0 :: "shape4 \<Rightarrow> nat" where "sh0 s = fst s"
definition sh1 :: "shape4 \<Rightarrow> nat" where "sh1 s = fst (snd s)"
definition sh2 :: "shape4 \<Rightarrow> nat" where "sh2 s = fst (snd (snd s))"
definition sh3 :: "shape4 \<Rightarrow> nat" where "sh3 s = snd (snd (snd s))"

record tensor =
  shape :: shape4
  elems :: "real list"

text \<open>\<open>at4 A t i j r\<close> is \<^verbatim>\<open>A[t, i, j, r]\<close> for indices inside the shape.\<close>

definition at4 :: "tensor \<Rightarrow> nat \<Rightarrow> nat \<Rightarrow> nat \<Rightarrow> nat \<Rightarrow> real" where
  "at4 A t i j r =
     elems A ! (((t * sh1 (shape A) + i) * sh2 (shape A) + j) * sh3 (shape A) + r)"

text \<open>The array of a given shape whose entry at \<open>(t, i, j, r)\<close> is \<open>g t i j r\<close>.\<close>

definition tab4 :: "shape4 \<Rightarrow> (nat \<Rightarrow> nat \<Rightarrow> nat \<Rightarrow> nat \<Rightarrow> real) \<Rightarrow> tensor" where
  "tab4 s g =
     \<lparr>shape = s,
      elems = concat (map (\<lambda>t. concat (map (\<lambda>i. concat (map (\<lambda>j. map (g t i j)
                [0..<sh3 s]) [0..<sh2 s])) [0..<sh1 s])) [0..<sh0 s])\<rparr>"

definition np_zeros :: "shape4 \<Rightarrow> tensor" where
  "np_zeros s = \<lparr>shape = s, elems = replicate (sh0 s * sh1 s * sh2 s * sh3 s) 0\<rparr>"

definition np_ones :: "shape4 \<Rightarrow> tensor" where
  "np_ones s = \<lparr>shape = s, elems = replicate (sh0 s * sh1 s * sh2 s * sh3 s) 1\<rparr>"

text \<open>An array is well formed when it holds as many elements as its shape says.\<close>

definition well_formed :: "tensor \<Rightarrow> bool" where
  "well_formed A =
     (length (elems A) = sh0 (shape A) * sh1 (shape A) * sh2 (shape A) * sh3 (shape A))"

text \<open>
  Broadcasting: two axis lengths are compatible when they are equal or one of them is 1;
  an axis of length 1 is read at index 0 whatever the index asked for.
\<close>

definition bdim :: "nat \<Rightarrow> nat \<Rightarrow> nat option" where
  "bdim m n = (if m = n then Some m else if m = 1 then Some n
               else if n = 1 then Some m else None)"

definition bc :: "nat \<Rightarrow> nat \<Rightarrow> nat" where
  "bc n i = (if n = 1 then 0 else i)"

definition bat4 :: "tensor \<Rightarrow> nat \<Rightarrow> nat \<Rightarrow> nat \<Rightarrow> nat \<Rightarrow> real" where
  "bat4 A t i j r =
     at4 A (bc (sh0 (shape A)) t) (bc (sh1 (shape A)) i)
          (bc (sh2 (shape A)) j) (bc (sh3 (shape A)) r)"

definition bshape :: "shape4 \<Rightarrow> shape4 \<Rightarrow> shape4 option" where
  "bshape s u =
     (case (bdim (sh0 s) (sh0 u), bdim (sh1 s) (sh1 u),
            bdim (sh2 s) (sh2 u), bdim (sh3 s) (sh3 u)) of
        (Some k0, Some k1, Some k2, Some k3) \<Rightarrow> Some (k0, k1, k2, k3)
      | _ \<Rightarrow> None)"

text \<open>An elementwise binary operation of two arrays, \<^verbatim>\<open>A + B\<close> or \<^verbatim>\<open>A * B\<close>.\<close>

definition np_binop :: "(real \<Rightarrow> real \<Rightarrow> real) \<Rightarrow> tensor \<Rightarrow> tensor \<Rightarrow> error + tensor" where
  "np_binop g A B =
     (case bshape (shape A) (shape B) of
        None \<Rightarrow> Inl ValueError
      | Some s \<Rightarrow> Inr (tab4 s (\<lambda>t i j r. g (bat4 A t i j r) (bat4 B t i j r))))"

text \<open>
  An in-place operation \<^verbatim>\<open>A += B\<close> or \<^verbatim>\<open>A -= B\<close>: \<open>B\<close> has to broadcast to the
  shape of \<open>A\<close>, which is kept.
\<close>

definition np_inplace :: "(real \<Rightarrow> real \<Rightarrow> real) \<Rightarrow> tensor \<Rightarrow> tensor \<Rightarrow> error + tensor" where
  "np_inplace g A B =
     (if bshape (shape A) (shape B) = Some (shape A)
      then Inr (tab4 (shape A) (\<lambda>t i j r. g (at4 A t i j r) (bat4 B t i j r)))
      else Inl ValueError)"

definition np_map :: "(real \<Rightarrow> real) \<Rightarrow> tensor \<Rightarrow> tensor" where
  "np_map g A = \<lparr>shape = shape A, elems = map g (elems A)\<rparr>"

text \<open>
  \<^verbatim>\<open>np.pad(A, ((0, 0), (p, p), (p, p), (0, 0)), mode='constant', constant_values=(0, 0))\<close>;
  numpy refuses a negative pad width.
\<close>

definition np_pad :: "tensor \<Rightarrow> int \<Rightarrow> error + tensor" where
  "np_pad A p =
     (if p < 0 then Inl ValueError
      else let k = nat p; s = shape A in
        Inr (tab4 (sh0 s, sh1 s + 2 * k, sh2 s + 2 * k, sh3 s)
               (\<lambda>t i j r. if k \<le> i \<and> i < k + sh1 s \<and> k \<le> j \<and> j < k + sh2 s
                           then at4 A t (i - k) (j - k) r else 0)))"

text \<open>
  \<^verbatim>\<open>int(a / b)\<close> on Python integers: true division, then truncation toward zero. The
  quotient of two integers below \<open>2^53\<close> in magnitude, rounded to float64, truncates to
  the same integer as the exact quotient.
\<close>

definition int_truediv :: "int \<Rightarrow> int \<Rightarrow> error + int" where
  "int_truediv a d =
     (if d = 0 then Inl ZeroDivisionError
      else Inr (sgn a * sgn d * (\<bar>a\<bar> div \<bar>d\<bar>)))"

subsection \<open>Strided views\<close>

text \<open>
  \<^verbatim>\<open>np.lib.stride_tricks.as_strided(A, shape, strides)\<close> reads the buffer of \<open>A\<close> at
  the offset \<open>\<Sum> index * stride\<close> and checks nothing but the sign of the shape. Strides
  are counted in elements here (numpy counts bytes, eight per element). A view that
  reaches outside the buffer reads memory that is not the array's: \<open>OutOfBounds\<close>.
\<close>

record view =
  base :: "real list"
  vshape :: "nat list"
  vstrides :: "int list"

definition strides :: "tensor \<Rightarrow> int list" where
  "strides A = (let s = shape A in
     [int (sh1 s * sh2 s * sh3 s), int (sh2 s * sh3 s), int (sh3 s), 1])"

definition as_strided :: "tensor \<Rightarrow> int list \<Rightarrow> int list \<Rightarrow> error + view" where
  "as_strided A shp strd =
     (if list_ex (\<lambda>n. n < 0) shp then Inl ValueError
      else Inr \<lparr>base = elems A, vshape = map nat shp, vstrides = strd\<rparr>)"

definition offset :: "view \<Rightarrow> nat list \<Rightarrow> int" where
  "offset M idx = sum_list (map2 (\<lambda>s i. s * int i) (vstrides M) idx)"

definition view_at :: "view \<Rightarrow> nat list \<Rightarrow> real" where
  "view_at M idx = base M ! nat (offset M idx)"

definition view_in_bounds :: "view \<Rightarrow> bool" where
  "view_in_bounds M =
     list_all (\<lambda>idx. 0 \<le> offset M idx \<and> offset M idx < int (length (base M)))
       (product_lists (map (\<lambda>n. [0..<n]) (vshape M)))"

text \<open>
  The size of a contraction label that two operands carry: opt_einsum accepts equal
  sizes, and a size of 1 against any other (the axis is then broadcast).
\<close>

definition label :: "nat \<Rightarrow> nat \<Rightarrow> error + nat" where
  "label m n = (case bdim m n of None \<Rightarrow> Inl ValueError | Some k \<Rightarrow> Inr k)"

section \<open>The layer\<close>

record layer =
  dim_in :: shape4
  dim_out :: shape4
  f :: nat
  n_c :: nat
  stride :: int
  pad :: int
  activation :: string
  lamb :: real
  X :: tensor
  Z :: tensor
  W :: tensor
  b :: tensor
  dX :: tensor
  dW :: tensor
  db :: tensor
  vW :: tensor
  vb :: tensor
  sW :: tensor
  sb :: tensor
  dZ_pad :: tensor

text \<open>
  \<^verbatim>\<open>_allocate_dZ_pad(m)\<close>: a zero array of shape
  \<^verbatim>\<open>(m, X.shape[1] + W.shape[0] - 1, X.shape[2] + W.shape[0] - 1, Z.shape[-1])\<close>;
  \<^verbatim>\<open>np.zeros\<close> refuses a negative length.
\<close>

definition allocate_dZ_pad :: "layer \<Rightarrow> nat \<Rightarrow> error + tensor" where
  "allocate_dZ_pad L m =
     (let in_h = int (sh1 (shape (X L))) + (int (sh0 (shape (W L))) - 1);
          in_w = int (sh2 (shape (X L))) + (int (sh0 (shape (W L))) - 1)
      in if in_h < 0 \<or> in_w < 0 then Inl ValueError
         else Inr (np_zeros (m, nat in_h, nat in_w, sh3 (shape (Z L)))))"

text \<open>
  \<^verbatim>\<open>__init__\<close>. The standard normal draws of \<^verbatim>\<open>np.random.randn(f, f, dim_in[-1], c)\<close>
  are an argument, \<open>randn\<close>, read in row-major order. The statements run in the
  source's order, so the first of them that raises decides the error.
\<close>

definition init_weights :: "nat \<Rightarrow> nat \<Rightarrow> shape4 \<Rightarrow> (nat \<Rightarrow> real) \<Rightarrow> error + tensor" where
  "init_weights k c d_in randn =
     (if sh1 d_in * sh2 d_in = 0 then Inl ZeroDivisionError
      else Inr \<lparr>shape = (k, k, sh3 d_in, c),
                elems = map (\<lambda>n. randn n * sqrt (2 / real (sh1 d_in * sh2 d_in)))
                          [0..<k * k * sh3 d_in * c]\<rparr>)"

definition ConvLayer :: "shape4 \<Rightarrow> nat \<Rightarrow> nat \<Rightarrow> int \<Rightarrow> int \<Rightarrow> string \<Rightarrow> real \<Rightarrow> (nat \<Rightarrow> real)
    \<Rightarrow> error + layer" where
  "ConvLayer d_in k c s p act lam randn =
     (case int_truediv (int (sh1 d_in) - int k + 2 * p) s of Inl e \<Rightarrow> Inl e | Inr qh \<Rightarrow>
     (case int_truediv (int (sh2 d_in) - int k + 2 * p) s of Inl e \<Rightarrow> Inl e | Inr qw \<Rightarrow>
      if 1 + qh < 0 \<or> 1 + qw < 0 then Inl ValueError else
      (let d_out = (sh0 d_in, nat (1 + qh), nat (1 + qw), c) in
      (case init_weights k c d_in randn of Inl e \<Rightarrow> Inl e | Inr W0 \<Rightarrow>
      (let L = \<lparr>dim_in = d_in, dim_out = d_out, f = k, n_c = c, stride = s, pad = p,
               activation = act, lamb = lam,
               X = np_zeros d_in, Z = np_zeros d_out, W = W0, b = np_zeros (1, 1, 1, c),
               dX = np_zeros d_in, dW = np_zeros (shape W0), db = np_zeros (1, 1, 1, c),
               vW = np_zeros (shape W0), vb = np_zeros (1, 1, 1, c),
               sW = np_zeros (shape W0), sb = np_zeros (1, 1, 1, c),
               dZ_pad = np_zeros (0, 0, 0, 0)\<rparr> in
      (case allocate_dZ_pad L (sh0 d_in) of Inl e \<Rightarrow> Inl e
       | Inr P \<Rightarrow> Inr (L\<lparr>dZ_pad := P\<rparr>)))))))"

definition relu :: "tensor \<Rightarrow> tensor" where
  "relu A = np_map (\<lambda>z. max 0 z) A"

definition deriv_relu :: "tensor \<Rightarrow> tensor" where
  "deriv_relu A = np_map (\<lambda>z. if z > 0 then 1 else 0) A"

subsection \<open>Forward propagation\<close>

text \<open>
  The view of \<^verbatim>\<open>forward\<close> has shape \<^verbatim>\<open>(f, f, dim_in[-1], X.shape[0], n_h, n_w, 1)\<close>
  and strides \<^verbatim>\<open>(s1, s2, s3, s0, s1*stride, s2*stride, s3)\<close> of the padded input.
\<close>

definition forward_view :: "layer \<Rightarrow> tensor \<Rightarrow> tensor \<Rightarrow> int \<Rightarrow> int \<Rightarrow> error + view" where
  "forward_view L Xin x_pad n_h n_w =
     (let st = strides x_pad in
      as_strided x_pad
        [int (f L), int (f L), int (sh3 (dim_in L)), int (sh0 (shape Xin)), n_h, n_w, 1]
        [st ! 1, st ! 2, st ! 3, st ! 0, st ! 1 * stride L, st ! 2 * stride L, st ! 3])"

text \<open>\<^verbatim>\<open>contract('pqrs,pqrtbmn->tbms', W, M)\<close>.\<close>

definition contract_forward :: "tensor \<Rightarrow> view \<Rightarrow> error + tensor" where
  "contract_forward A M =
     (case label (sh0 (shape A)) (vshape M ! 0) of Inl e \<Rightarrow> Inl e | Inr np \<Rightarrow>
     (case label (sh1 (shape A)) (vshape M ! 1) of Inl e \<Rightarrow> Inl e | Inr nq \<Rightarrow>
     (case label (sh2 (shape A)) (vshape M ! 2) of Inl e \<Rightarrow> Inl e | Inr nr \<Rightarrow>
      if \<not> view_in_bounds M then Inl OutOfBounds
      else Inr (tab4 (vshape M ! 3, vshape M ! 4, vshape M ! 5, sh3 (shape A))
        (\<lambda>t u v s. \<Sum>p\<leftarrow>[0..<np]. \<Sum>q\<leftarrow>[0..<nq]. \<Sum>r\<leftarrow>[0..<nr]. \<Sum>n\<leftarrow>[0..<vshape M ! 6].
            bat4 A p q r s
            * view_at M [bc (vshape M ! 0) p, bc (vshape M ! 1) q, bc (vshape M ! 2) r,
                         t, u, v, n])))))"

text \<open>
  \<^verbatim>\<open>forward(X)\<close> returns the activated output, or \<^verbatim>\<open>None\<close> for an activation that is
  neither \<^verbatim>\<open>'relu'\<close> nor \<^verbatim>\<open>'none'\<close>, together with the layer as the call leaves it.
\<close>

definition forward :: "layer \<Rightarrow> tensor \<Rightarrow> (error + tensor option) \<times> layer" where
  "forward L Xin =
     (let L1 = L\<lparr>X := Xin\<rparr> in
      (case int_truediv (int (sh1 (shape Xin)) - int (f L) + 2 * pad L) (stride L) of
        Inl e \<Rightarrow> (Inl e, L1) | Inr qh \<Rightarrow>
      (case int_truediv (int (sh2 (shape Xin)) - int (f L) + 2 * pad L) (stride L) of
        Inl e \<Rightarrow> (Inl e, L1) | Inr qw \<Rightarrow>
      (case (if pad L \<noteq> 0 then np_pad Xin (pad L) else Inr Xin) of
        Inl e \<Rightarrow> (Inl e, L1) | Inr x_pad \<Rightarrow>
      (case forward_view L Xin x_pad (qh + 1) (qw + 1) of
        Inl e \<Rightarrow> (Inl e, L1) | Inr M \<Rightarrow>
      (case contract_forward (W L) M of
        Inl e \<Rightarrow> (Inl e, L1) | Inr Z0 \<Rightarrow>
      (case np_binop (+) Z0 (b L) of
        Inl e \<Rightarrow> (Inl e, L1\<lparr>Z := Z0\<rparr>) | Inr Z1 \<Rightarrow>
      (let L2 = L1\<lparr>Z := Z1\<rparr> in
       if activation L = ''relu'' then (Inr (Some (relu Z1)), L2)
       else if activation L = ''none'' then (Inr (Some Z1), L2)
       else (Inr None, L2)))))))))"

subsection \<open>Slices\<close>

text \<open>
  The indices a Python slice \<^verbatim>\<open>start:stop:step\<close> selects on an axis of length \<open>len\<close>
  (CPython's \<^verbatim>\<open>PySlice_AdjustIndices\<close>): a negative bound counts from the end, bounds
  are clipped to the axis, and a step of zero is refused. \<open>None\<close> is an omitted bound.
\<close>

definition py_slice :: "int option \<Rightarrow> int option \<Rightarrow> int \<Rightarrow> nat \<Rightarrow> error + nat list" where
  "py_slice start stop step len =
     (if step = 0 then Inl ValueError
      else
        (let n = int len;
             lower = (if step < 0 then - 1 else 0);
             upper = (if step < 0 then n - 1 else n);
             clip = (\<lambda>i. if i < 0 then max (i + n) lower else min i upper);
             lo = (case start of None \<Rightarrow> (if step < 0 then upper else lower)
                   | Some i \<Rightarrow> clip i);
             hi = (case stop of None \<Rightarrow> (if step < 0 then lower else upper)
                   | Some i \<Rightarrow> clip i);
             cnt = (if step < 0
                    then (if hi < lo then (lo - hi - 1) div (- step) + 1 else 0)
                    else (if lo < hi then (hi - lo - 1) div step + 1 else 0))
         in Inr (map (\<lambda>k. nat (lo + int k * step)) [0..<nat cnt])))"

text \<open>
  \<open>getitem A I0 I1 I2 I3\<close> is the sub-array that the index lists select on the four
  axes; \<open>[0..<n]\<close> is the slice \<^verbatim>\<open>:\<close> of an axis of length \<open>n\<close>.
\<close>

definition getitem :: "tensor \<Rightarrow> nat list \<Rightarrow> nat list \<Rightarrow> nat list \<Rightarrow> nat list \<Rightarrow> tensor" where
  "getitem A I0 I1 I2 I3 =
     tab4 (length I0, length I1, length I2, length I3)
       (\<lambda>t i j r. at4 A (I0 ! t) (I1 ! i) (I2 ! j) (I3 ! r))"

fun index_of :: "nat list \<Rightarrow> nat \<Rightarrow> nat option" where
  "index_of [] x = None"
| "index_of (y # ys) x = (if x = y then Some 0 else map_option Suc (index_of ys x))"

text \<open>
  \<open>setitem g A I0 I1 I2 I3 B\<close> is \<open>A\<close> after \<^verbatim>\<open>A[I0, I1, I2, I3] = B\<close> (with
  \<open>g old new = new\<close>) or \<^verbatim>\<open>A[I0, I1, I2, I3] += B\<close> (with \<open>g = (+)\<close>): \<open>B\<close> has
  to broadcast to the shape of the selected sub-array.
\<close>

definition setitem :: "(real \<Rightarrow> real \<Rightarrow> real) \<Rightarrow> tensor \<Rightarrow> nat list \<Rightarrow> nat list \<Rightarrow> nat list
    \<Rightarrow> nat list \<Rightarrow> tensor \<Rightarrow> error + tensor" where
  "setitem g A I0 I1 I2 I3 B =
     (let s = (length I0, length I1, length I2, length I3) in
      if bshape s (shape B) = Some s
      then Inr (tab4 (shape A) (\<lambda>t i j r.
             (case index_of I0 t of None \<Rightarrow> at4 A t i j r | Some k0 \<Rightarrow>
             (case index_of I1 i of None \<Rightarrow> at4 A t i j r | Some k1 \<Rightarrow>
             (case index_of I2 j of None \<Rightarrow> at4 A t i j r | Some k2 \<Rightarrow>
             (case index_of I3 r of None \<Rightarrow> at4 A t i j r | Some k3 \<Rightarrow>
                g (at4 A t i j r) (bat4 B k0 k1 k2 k3)))))))
      else Inl ValueError)"

subsection \<open>The gradient argument\<close>

text \<open>
  \<^verbatim>\<open>dA\<close> is a four-dimensional array, or a two-dimensional one when the next layer is
  fully connected.
\<close>

record matrix =
  mshape :: "nat \<times> nat"
  melems :: "real list"

datatype ndarray = Arr4 tensor | Arr2 matrix

text \<open>\<^verbatim>\<open>A.reshape(s)\<close>: the same elements in the same order, when the sizes agree.\<close>

definition reshape4 :: "matrix \<Rightarrow> shape4 \<Rightarrow> error + tensor" where
  "reshape4 A s =
     (if fst (mshape A) * snd (mshape A) = sh0 s * sh1 s * sh2 s * sh3 s
      then Inr \<lparr>shape = s, elems = melems A\<rparr>
      else Inl ValueError)"

text \<open>
  The last statement on \<^verbatim>\<open>self.dW\<close> of both backward passes,
  \<^verbatim>\<open>self.dW += self.lamb/self.dim_in[0]*self.W\<close>: the division of two Python numbers
  raises when \<^verbatim>\<open>dim_in[0]\<close> is zero, and the product has to broadcast to \<^verbatim>\<open>self.dW\<close>.
\<close>

definition regularization :: "layer \<Rightarrow> tensor" where
  "regularization L = np_map (\<lambda>w. lamb L / real (sh0 (dim_in L)) * w) (W L)"

definition add_regularization :: "layer \<Rightarrow> error + tensor" where
  "add_regularization L =
     (if sh0 (dim_in L) = 0 then Inl ZeroDivisionError
      else np_inplace (+) (dW L) (regularization L))"

subsection \<open>Backward propagation, naive\<close>

text \<open>
  One pass of the innermost loop body of \<^verbatim>\<open>conv_backward\<close> at \<open>(h, w, c)\<close>, on the
  local \<^verbatim>\<open>dx_pad\<close> and on \<^verbatim>\<open>self.dW\<close>, \<^verbatim>\<open>self.db\<close>, which it updates in place. An
  integer index outside its axis raises \<open>IndexError\<close>. \<^verbatim>\<open>W[:, :, :, c]\<close> has three
  axes, which broadcasting aligns with the last three of
  \<^verbatim>\<open>dZ[:, h, w, c].reshape(m, 1, 1, 1)\<close>; the three axes of \<^verbatim>\<open>dW[:, :, :, c]\<close> and of the
  sum over axis 0 are the first three of an array whose last axis has length 1.
\<close>

definition dZ_column :: "tensor \<Rightarrow> nat \<Rightarrow> nat \<Rightarrow> nat \<Rightarrow> error + tensor" where
  "dZ_column dZ h w c =
     (if h < sh1 (shape dZ) \<and> w < sh2 (shape dZ) \<and> c < sh3 (shape dZ)
      then Inr (tab4 (sh0 (shape dZ), 1, 1, 1) (\<lambda>t i j r. at4 dZ t h w c))
      else Inl IndexError)"

definition W_channel :: "tensor \<Rightarrow> nat \<Rightarrow> error + tensor" where
  "W_channel A c =
     (if c < sh3 (shape A)
      then Inr (tab4 (1, sh0 (shape A), sh1 (shape A), sh2 (shape A))
                  (\<lambda>t p q r. at4 A p q r c))
      else Inl IndexError)"

definition sum_axis0 :: "tensor \<Rightarrow> tensor" where
  "sum_axis0 A =
     tab4 (sh1 (shape A), sh2 (shape A), sh3 (shape A), 1)
       (\<lambda>p q r n. \<Sum>t\<leftarrow>[0..<sh0 (shape A)]. at4 A t p q r)"

definition step_dx :: "layer \<Rightarrow> tensor \<Rightarrow> nat \<Rightarrow> nat \<Rightarrow> nat \<Rightarrow> tensor \<Rightarrow> error + tensor" where
  "step_dx L dZ h w c dx_pad =
     (let v_s = int h * stride L; v_e = int h * stride L + int (f L);
          h_s = int w * stride L; h_e = int w * stride L + int (f L);
          sx = shape dx_pad in
      (case py_slice (Some v_s) (Some v_e) 1 (sh1 sx) of Inl e \<Rightarrow> Inl e | Inr I1 \<Rightarrow>
      (case py_slice (Some h_s) (Some h_e) 1 (sh2 sx) of Inl e \<Rightarrow> Inl e | Inr I2 \<Rightarrow>
      (case W_channel (W L) c of Inl e \<Rightarrow> Inl e | Inr Wc \<Rightarrow>
      (case dZ_column dZ h w c of Inl e \<Rightarrow> Inl e | Inr col \<Rightarrow>
      (case np_binop (*) Wc col of Inl e \<Rightarrow> Inl e | Inr T1 \<Rightarrow>
       setitem (+) dx_pad [0..<sh0 sx] I1 I2 [0..<sh3 sx] T1))))))"

definition step_dW :: "layer \<Rightarrow> tensor \<Rightarrow> tensor \<Rightarrow> nat \<Rightarrow> nat \<Rightarrow> nat \<Rightarrow> error + tensor" where
  "step_dW L x_pad dZ h w c =
     (let v_s = int h * stride L; v_e = int h * stride L + int (f L);
          h_s = int w * stride L; h_e = int w * stride L + int (f L);
          sp = shape x_pad; sw = shape (dW L) in
      if \<not> c < sh3 sw then Inl IndexError else
      (case py_slice (Some v_s) (Some v_e) 1 (sh1 sp) of Inl e \<Rightarrow> Inl e | Inr J1 \<Rightarrow>
      (case py_slice (Some h_s) (Some h_e) 1 (sh2 sp) of Inl e \<Rightarrow> Inl e | Inr J2 \<Rightarrow>
      (case dZ_column dZ h w c of Inl e \<Rightarrow> Inl e | Inr col \<Rightarrow>
      (case np_binop (*) (getitem x_pad [0..<sh0 sp] J1 J2 [0..<sh3 sp]) col of
         Inl e \<Rightarrow> Inl e | Inr T2 \<Rightarrow>
       setitem (+) (dW L) [0..<sh0 sw] [0..<sh1 sw] [0..<sh2 sw] [c] (sum_axis0 T2))))))"

definition step_db :: "layer \<Rightarrow> tensor \<Rightarrow> nat \<Rightarrow> nat \<Rightarrow> nat \<Rightarrow> error + tensor" where
  "step_db L dZ h w c =
     (let sd = shape (db L) in
      if \<not> c < sh3 sd then Inl IndexError else
      (case dZ_column dZ h w c of Inl e \<Rightarrow> Inl e | Inr col \<Rightarrow>
       setitem (+) (db L) [0..<sh0 sd] [0..<sh1 sd] [0..<sh2 sd] [c]
         (tab4 (1, 1, 1, 1) (\<lambda>t i j r. sum_list (elems col)))))"

definition conv_step :: "tensor \<Rightarrow> tensor \<Rightarrow> nat \<times> nat \<times> nat \<Rightarrow> tensor \<times> layer
    \<Rightarrow> (error + tensor) \<times> layer" where
  "conv_step x_pad dZ hwc st =
     (case hwc of (h, w, c) \<Rightarrow> (case st of (dx_pad, L) \<Rightarrow>
      (case step_dx L dZ h w c dx_pad of Inl e \<Rightarrow> (Inl e, L) | Inr dx_pad' \<Rightarrow>
      (case step_dW L x_pad dZ h w c of Inl e \<Rightarrow> (Inl e, L) | Inr dW' \<Rightarrow>
      (case step_db L dZ h w c of Inl e \<Rightarrow> (Inl e, L\<lparr>dW := dW'\<rparr>)
       | Inr db' \<Rightarrow> (Inr dx_pad', L\<lparr>dW := dW', db := db'\<rparr>))))))"

text \<open>The three nested \<^verbatim>\<open>for\<close> loops, stopping at the first pass that raises.\<close>

fun conv_loop :: "tensor \<Rightarrow> tensor \<Rightarrow> (nat \<times> nat \<times> nat) list \<Rightarrow> tensor \<times> layer
    \<Rightarrow> (error + tensor) \<times> layer" where
  "conv_loop x_pad dZ [] st = (Inr (fst st), snd st)"
| "conv_loop x_pad dZ (hwc # rest) st =
     (case conv_step x_pad dZ hwc st of
        (Inl e, L1) \<Rightarrow> (Inl e, L1)
      | (Inr dx_pad', L1) \<Rightarrow> conv_loop x_pad dZ rest (dx_pad', L1))"

definition loop_range :: "nat \<Rightarrow> nat \<Rightarrow> nat \<Rightarrow> (nat \<times> nat \<times> nat) list" where
  "loop_range nh nw nc =
     concat (map (\<lambda>h. concat (map (\<lambda>w. map (\<lambda>c. (h, w, c)) [0..<nc]) [0..<nw])) [0..<nh])"

text \<open>
  The last slice, \<^verbatim>\<open>dx_pad[:, self.pad:-self.pad, self.pad:-self.pad, :]\<close>, assigned to
  all of \<^verbatim>\<open>self.dX\<close>.
\<close>

definition unpad_slice :: "layer \<Rightarrow> tensor \<Rightarrow> error + tensor" where
  "unpad_slice L dx_pad =
     (let sx = shape dx_pad in
      (case py_slice (Some (pad L)) (Some (- pad L)) 1 (sh1 sx) of Inl e \<Rightarrow> Inl e | Inr I1 \<Rightarrow>
      (case py_slice (Some (pad L)) (Some (- pad L)) 1 (sh2 sx) of Inl e \<Rightarrow> Inl e | Inr I2 \<Rightarrow>
       Inr (getitem dx_pad [0..<sh0 sx] I1 I2 [0..<sh3 sx]))))"

definition unpad :: "layer \<Rightarrow> tensor \<Rightarrow> error + tensor" where
  "unpad L dx_pad =
     (case unpad_slice L dx_pad of Inl e \<Rightarrow> Inl e | Inr S \<Rightarrow>
      (let sd = shape (dX L) in
       setitem (\<lambda>old new. new) (dX L) [0..<sh0 sd] [0..<sh1 sd] [0..<sh2 sd] [0..<sh3 sd] S))"

text \<open>
  \<^verbatim>\<open>conv_backward(dA)\<close> up to the assignment of \<^verbatim>\<open>self.dX\<close>: the new \<^verbatim>\<open>dX\<close> or the
  error raised, and the layer as these statements leave it, with what was written in
  place before an error.
\<close>

definition conv_gradients :: "layer \<Rightarrow> ndarray \<Rightarrow> (error + tensor) \<times> layer" where
  "conv_gradients L dA =
     (let L1 = L\<lparr>dW := np_zeros (shape (dW L)), db := np_zeros (shape (db L))\<rparr> in
      (case dA of Arr2 A2 \<Rightarrow> (Inl ValueError, L1) | Arr4 A \<Rightarrow>
      (case np_pad (X L1) (pad L1) of Inl e \<Rightarrow> (Inl e, L1) | Inr x_pad \<Rightarrow>
      (case np_pad (dX L1) (pad L1) of Inl e \<Rightarrow> (Inl e, L1) | Inr dx_pad \<Rightarrow>
      (case np_binop (*) A (deriv_relu (Z L1)) of Inl e \<Rightarrow> (Inl e, L1) | Inr dZ \<Rightarrow>
      (case conv_loop x_pad dZ
              (loop_range (sh1 (shape A)) (sh2 (shape A)) (sh3 (shape A))) (dx_pad, L1) of
         (Inl e, L2) \<Rightarrow> (Inl e, L2)
       | (Inr dx_pad', L2) \<Rightarrow>
      (case unpad L2 dx_pad' of Inl e \<Rightarrow> (Inl e, L2)
       | Inr dX' \<Rightarrow> (Inr dX', L2\<lparr>dX := dX'\<rparr>))))))))"

text \<open>
  \<^verbatim>\<open>conv_backward(dA)\<close>: the value returned or the error raised, and the layer as the
  call leaves it.
\<close>

definition conv_backward :: "layer \<Rightarrow> ndarray \<Rightarrow> (error + tensor) \<times> layer" where
  "conv_backward L dA =
     (case conv_gradients L dA of
        (Inl e, L3) \<Rightarrow> (Inl e, L3)
      | (Inr dX', L3) \<Rightarrow>
          (case add_regularization L3 of Inl e \<Rightarrow> (Inl e, L3)
           | Inr dW' \<Rightarrow> (Inr dX', L3\<lparr>dW := dW'\<rparr>)))"

subsection \<open>Backward propagation, with strided views\<close>

text \<open>
  \<^verbatim>\<open>dZ\<close>: a two-dimensional \<^verbatim>\<open>dA\<close> is first reshaped to
  \<^verbatim>\<open>(dA.shape[1], *self.dim_out[1:])\<close>; then, whatever the activation of the layer,
  \<^verbatim>\<open>dA * self._deriv_relu(self.Z)\<close>.
\<close>

definition backward_dZ :: "layer \<Rightarrow> ndarray \<Rightarrow> error + tensor" where
  "backward_dZ L dA =
     (case dA of
        Arr2 A2 \<Rightarrow>
          (case reshape4 A2 (snd (mshape A2), sh1 (dim_out L), sh2 (dim_out L), sh3 (dim_out L)) of
             Inl e \<Rightarrow> Inl e
           | Inr A \<Rightarrow> np_binop (*) A (deriv_relu (Z L)))
      | Arr4 A \<Rightarrow> np_binop (*) A (deriv_relu (Z L)))"

text \<open>\<^verbatim>\<open>np.rot90(W, 2)\<close> turns the first two axes by 180 degrees.\<close>

definition rot180 :: "tensor \<Rightarrow> tensor" where
  "rot180 A =
     tab4 (shape A)
       (\<lambda>p q r s. at4 A (sh0 (shape A) - 1 - p) (sh1 (shape A) - 1 - q) r s)"

text \<open>
  \<^verbatim>\<open>self.dZ_pad[:, 0::stride, 0::stride] = dZ\<close> when \<^verbatim>\<open>pad_dZ == 0\<close>, and
  \<^verbatim>\<open>self.dZ_pad[:, pad_dZ:-pad_dZ:stride, pad_dZ:-pad_dZ:stride, :] = dZ\<close> otherwise.
\<close>

definition embed_dZ :: "layer \<Rightarrow> tensor \<Rightarrow> error + tensor" where
  "embed_dZ L dZ =
     (let pad_dZ = int (sh0 (shape (W L))) - (pad L + 1);
          sp = shape (dZ_pad L);
          stop = (if pad_dZ = 0 then None else Some (- pad_dZ)) in
      (case py_slice (Some pad_dZ) stop (stride L) (sh1 sp) of Inl e \<Rightarrow> Inl e | Inr I1 \<Rightarrow>
      (case py_slice (Some pad_dZ) stop (stride L) (sh2 sp) of Inl e \<Rightarrow> Inl e | Inr I2 \<Rightarrow>
       setitem (\<lambda>old new. new) (dZ_pad L) [0..<sh0 sp] I1 I2 [0..<sh3 sp] dZ)))"

text \<open>
  \<^verbatim>\<open>self.dX = contract('pqrs,bmnspq->bmnr', W_rot, M)\<close> over the view \<open>M\<close> of
  \<^verbatim>\<open>self.dZ_pad\<close> with shape \<^verbatim>\<open>(P0, P1 - f + 1, P2 - f + 1, P3, f, f)\<close> and strides
  \<^verbatim>\<open>(s0, s1, s2, s3, s1, s2)\<close>.
\<close>

definition backward_dX :: "layer \<Rightarrow> error + tensor" where
  "backward_dX L =
     (let W_rot = rot180 (W L); sp = shape (dZ_pad L); sr = shape W_rot;
          st = strides (dZ_pad L) in
      (case as_strided (dZ_pad L)
              [int (sh0 sp), int (sh1 sp) - int (sh0 sr) + 1, int (sh2 sp) - int (sh1 sr) + 1,
               int (sh3 sp), int (sh0 sr), int (sh1 sr)]
              [st ! 0, st ! 1, st ! 2, st ! 3, st ! 1, st ! 2] of
         Inl e \<Rightarrow> Inl e | Inr M \<Rightarrow>
      (case label (sh0 sr) (vshape M ! 4) of Inl e \<Rightarrow> Inl e | Inr np \<Rightarrow>
      (case label (sh1 sr) (vshape M ! 5) of Inl e \<Rightarrow> Inl e | Inr nq \<Rightarrow>
      (case label (sh3 sr) (vshape M ! 3) of Inl e \<Rightarrow> Inl e | Inr ns \<Rightarrow>
       if \<not> view_in_bounds M then Inl OutOfBounds
       else Inr (tab4 (vshape M ! 0, vshape M ! 1, vshape M ! 2, sh2 sr)
         (\<lambda>t u v r. \<Sum>p\<leftarrow>[0..<np]. \<Sum>q\<leftarrow>[0..<nq]. \<Sum>s\<leftarrow>[0..<ns].
             bat4 W_rot p q r s
             * view_at M [t, u, v, bc (vshape M ! 3) s, bc (vshape M ! 4) p,
                          bc (vshape M ! 5) q])))))))"

text \<open>
  \<^verbatim>\<open>self.dW = contract('abcd,pqsabc->pqsd', dZ, M)\<close> over the view \<open>M\<close> of the padded
  \<^verbatim>\<open>self.X\<close> with shape \<^verbatim>\<open>(f, f, n_C_prev, m, n_H, n_W)\<close>, where \<^verbatim>\<open>f\<close> is
  \<^verbatim>\<open>W.shape[1]\<close>, \<^verbatim>\<open>n_C_prev\<close> is \<^verbatim>\<open>W.shape[2]\<close> and \<^verbatim>\<open>(m, n_H, n_W)\<close> come from
  \<^verbatim>\<open>dZ.shape\<close>, and strides \<^verbatim>\<open>(s1, s2, s3, s0, s1*stride, s2*stride)\<close>.
\<close>

definition backward_dW :: "layer \<Rightarrow> tensor \<Rightarrow> error + tensor" where
  "backward_dW L dZ =
     (case np_pad (X L) (pad L) of Inl e \<Rightarrow> Inl e | Inr X_pad \<Rightarrow>
     (let sw = shape (W L); sz = shape dZ; st = strides X_pad in
      (case as_strided X_pad
              [int (sh1 sw), int (sh1 sw), int (sh2 sw), int (sh0 sz), int (sh1 sz), int (sh2 sz)]
              [st ! 1, st ! 2, st ! 3, st ! 0, st ! 1 * stride L, st ! 2 * stride L] of
         Inl e \<Rightarrow> Inl e | Inr M \<Rightarrow>
       if \<not> view_in_bounds M then Inl OutOfBounds
       else Inr (tab4 (vshape M ! 0, vshape M ! 1, vshape M ! 2, sh3 sz)
         (\<lambda>p q s d. \<Sum>t\<leftarrow>[0..<sh0 sz]. \<Sum>u\<leftarrow>[0..<sh1 sz]. \<Sum>v\<leftarrow>[0..<sh2 sz].
             at4 dZ t u v d * view_at M [p, q, s, t, u, v])))))"

text \<open>\<^verbatim>\<open>self.db = contract('abcd->d', dZ).reshape(1, 1, 1, n_C)\<close>.\<close>

definition backward_db :: "tensor \<Rightarrow> tensor" where
  "backward_db dZ =
     tab4 (1, 1, 1, sh3 (shape dZ))
       (\<lambda>i j k d. \<Sum>t\<leftarrow>[0..<sh0 (shape dZ)]. \<Sum>u\<leftarrow>[0..<sh1 (shape dZ)].
           \<Sum>v\<leftarrow>[0..<sh2 (shape dZ)]. at4 dZ t u v d)"

text \<open>
  \<^verbatim>\<open>backward(dA)\<close> up to the contraction that gives \<^verbatim>\<open>self.dW\<close>: the new \<^verbatim>\<open>dX\<close>
  with \<^verbatim>\<open>dZ\<close>, or the error raised, and the layer as these statements leave it.
\<close>

definition backward_gradients :: "layer \<Rightarrow> ndarray \<Rightarrow> (error + tensor \<times> tensor) \<times> layer" where
  "backward_gradients L dA =
     (case backward_dZ L dA of Inl e \<Rightarrow> (Inl e, L) | Inr dZ \<Rightarrow>
     (case (if sh0 (shape dZ) \<noteq> sh0 (shape (dZ_pad L))
            then allocate_dZ_pad L (sh0 (shape dZ)) else Inr (dZ_pad L)) of
        Inl e \<Rightarrow> (Inl e, L) | Inr P \<Rightarrow>
     (let L1 = L\<lparr>dZ_pad := P, dW := np_zeros (shape (dW L)), db := np_zeros (shape (db L))\<rparr> in
     (case embed_dZ L1 dZ of Inl e \<Rightarrow> (Inl e, L1) | Inr P' \<Rightarrow>
     (let L2 = L1\<lparr>dZ_pad := P'\<rparr> in
     (case backward_dX L2 of Inl e \<Rightarrow> (Inl e, L2) | Inr dX' \<Rightarrow>
     (let L3 = L2\<lparr>dX := dX'\<rparr> in
     (case backward_dW L3 dZ of Inl e \<Rightarrow> (Inl e, L3)
      | Inr dW0 \<Rightarrow> (Inr (dX', dZ), L3\<lparr>dW := dW0\<rparr>)))))))))"

text \<open>
  \<^verbatim>\<open>backward(dA)\<close>: the value returned or the error raised, and the layer as the call
  leaves it.
\<close>

definition backward :: "layer \<Rightarrow> ndarray \<Rightarrow> (error + tensor) \<times> layer" where
  "backward L dA =
     (case backward_gradients L dA of
        (Inl e, L4) \<Rightarrow> (Inl e, L4)
      | (Inr (dX', dZ), L4) \<Rightarrow>
          (case add_regularization L4 of Inl e \<Rightarrow> (Inl e, L4)
           | Inr dW' \<Rightarrow> (Inr dX', L4\<lparr>dW := dW', db := backward_db dZ\<rparr>)))"

subsection \<open>The Adam update\<close>

text \<open>\<^verbatim>\<open>beta ** t\<close> for a float \<^verbatim>\<open>beta\<close> and an integer \<^verbatim>\<open>t\<close>.\<close>

definition py_pow :: "real \<Rightarrow> int \<Rightarrow> error + real" where
  "py_pow x t =
     (if 0 \<le> t then Inr (x ^ nat t)
      else if x = 0 then Inl ZeroDivisionError
      else Inr (1 / x ^ nat (- t)))"

text \<open>
  Division and square root of arrays: numpy goes on with \<open>inf\<close> or \<open>nan\<close> entries where
  a divisor is zero or a radicand negative.
\<close>

definition np_div_scalar :: "tensor \<Rightarrow> real \<Rightarrow> error + tensor" where
  "np_div_scalar A d =
     (if d = 0 \<and> elems A \<noteq> [] then Inl NonFinite else Inr (np_map (\<lambda>x. x / d) A))"

definition np_sqrt :: "tensor \<Rightarrow> error + tensor" where
  "np_sqrt A =
     (if list_ex (\<lambda>x. x < 0) (elems A) then Inl NonFinite else Inr (np_map sqrt A))"

definition np_divide :: "tensor \<Rightarrow> tensor \<Rightarrow> error + tensor" where
  "np_divide A B =
     (case bshape (shape A) (shape B) of
        None \<Rightarrow> Inl ValueError
      | Some s \<Rightarrow>
          if list_ex (\<lambda>d. d = 0) (elems (tab4 s (bat4 B))) then Inl NonFinite
          else Inr (tab4 s (\<lambda>t i j r. bat4 A t i j r / bat4 B t i j r)))"

text \<open>
  \<^verbatim>\<open>beta*v + (1-beta)*d\<close> and \<^verbatim>\<open>beta*s + (1-beta)*d**2\<close>, the new first and second
  moments.
\<close>

definition moment :: "real \<Rightarrow> tensor \<Rightarrow> tensor \<Rightarrow> error + tensor" where
  "moment beta v d = np_binop (+) (np_map (\<lambda>x. beta * x) v) (np_map (\<lambda>x. (1 - beta) * x) d)"

text \<open>
  \<^verbatim>\<open>rate * v_hat/(np.sqrt(s_hat)+epsilon)\<close>, the step subtracted from a parameter in
  place.
\<close>

definition adam_step :: "real \<Rightarrow> real \<Rightarrow> tensor \<Rightarrow> tensor \<Rightarrow> error + tensor" where
  "adam_step rate epsilon v_hat s_hat =
     (case np_sqrt s_hat of Inl e \<Rightarrow> Inl e | Inr r \<Rightarrow>
        np_divide (np_map (\<lambda>x. rate * x) v_hat) (np_map (\<lambda>x. x + epsilon) r))"

text \<open>The four moment updates, lines 195 to 198, each stored as soon as computed.\<close>

definition update_moments :: "layer \<Rightarrow> real \<Rightarrow> real \<Rightarrow> error option \<times> layer" where
  "update_moments L beta1 beta2 =
     (case moment beta1 (vW L) (dW L) of Inl e \<Rightarrow> (Some e, L) | Inr v1 \<Rightarrow>
     (case moment beta1 (vb L) (db L) of Inl e \<Rightarrow> (Some e, L\<lparr>vW := v1\<rparr>) | Inr v2 \<Rightarrow>
     (case moment beta2 (sW L) (np_map (\<lambda>x. x ^ 2) (dW L)) of
        Inl e \<Rightarrow> (Some e, L\<lparr>vW := v1, vb := v2\<rparr>) | Inr s1 \<Rightarrow>
     (case moment beta2 (sb L) (np_map (\<lambda>x. x ^ 2) (db L)) of
        Inl e \<Rightarrow> (Some e, L\<lparr>vW := v1, vb := v2, sW := s1\<rparr>)
      | Inr s2 \<Rightarrow> (None, L\<lparr>vW := v1, vb := v2, sW := s1, sb := s2\<rparr>)))))"

text \<open>\<^verbatim>\<open>v / (1-beta**t)\<close>, a bias-corrected moment.\<close>

definition bias_corrected :: "tensor \<Rightarrow> real \<Rightarrow> int \<Rightarrow> error + tensor" where
  "bias_corrected v beta t =
     (case py_pow beta t of Inl e \<Rightarrow> Inl e | Inr bt \<Rightarrow> np_div_scalar v (1 - bt))"

text \<open>
  \<^verbatim>\<open>update_parameters(rate, t, beta1, beta2, epsilon)\<close> returns nothing; the result is
  the layer as the call leaves it, and the error when one is raised.
\<close>

definition update_parameters :: "layer \<Rightarrow> real \<Rightarrow> int \<Rightarrow> real \<Rightarrow> real \<Rightarrow> real
    \<Rightarrow> error option \<times> layer" where
  "update_parameters L rate t beta1 beta2 epsilon =
     (case update_moments L beta1 beta2 of
        (Some e, L1) \<Rightarrow> (Some e, L1)
      | (None, L1) \<Rightarrow>
     (case bias_corrected (vW L1) beta1 t of Inl e \<Rightarrow> (Some e, L1) | Inr vW_hat \<Rightarrow>
     (case bias_corrected (vb L1) beta1 t of Inl e \<Rightarrow> (Some e, L1) | Inr vb_hat \<Rightarrow>
     (case bias_corrected (sW L1) beta2 t of Inl e \<Rightarrow> (Some e, L1) | Inr sW_hat \<Rightarrow>
     (case bias_corrected (sb L1) beta2 t of Inl e \<Rightarrow> (Some e, L1) | Inr sb_hat \<Rightarrow>
     (case adam_step rate epsilon vW_hat sW_hat of Inl e \<Rightarrow> (Some e, L1) | Inr stepW \<Rightarrow>
     (case np_inplace (-) (W L1) stepW of Inl e \<Rightarrow> (Some e, L1) | Inr W1 \<Rightarrow>
     (case adam_step rate epsilon vb_hat sb_hat of
        Inl e \<Rightarrow> (Some e, L1\<lparr>W := W1\<rparr>) | Inr stepb \<Rightarrow>
     (case np_inplace (-) (b L1) stepb of
        Inl e \<Rightarrow> (Some e, L1\<lparr>W := W1\<rparr>)
      | Inr b1 \<Rightarrow> (None, L1\<lparr>W := W1, b := b1\<rparr>))))))))))"

text \<open>
  Calls of \<^verbatim>\<open>update_parameters\<close> one after the other with the step indices of a list, as
  a training loop makes them; an error ends the sequence.
\<close>

fun update_repeatedly :: "layer \<Rightarrow> real \<Rightarrow> int list \<Rightarrow> real \<Rightarrow> real \<Rightarrow> real
    \<Rightarrow> error option \<times> layer" where
  "update_repeatedly L rate [] beta1 beta2 epsilon = (None, L)"
| "update_repeatedly L rate (t # ts) beta1 beta2 epsilon =
     (case update_parameters L rate t beta1 beta2 epsilon of
        (Some e, L1) \<Rightarrow> (Some e, L1)
      | (None, L1) \<Rightarrow> update_repeatedly L1 rate ts beta1 beta2 epsilon)"

section \<open>Concrete layers\<close>

text \<open>
  The layer of the end-to-end example, \<^verbatim>\<open>ConvLayer((2, 4, 4, 1), 2, 1, 1, 0, 'none')\<close>
  with \<^verbatim>\<open>W\<close> set to all ones; a layer with padding,
  \<^verbatim>\<open>ConvLayer((1, 1, 1, 1), 2, 1, 1, 1, 'none')\<close> with \<^verbatim>\<open>W\<close> set to all ones; and a
  layer with padding and regularization built for batches of two,
  \<^verbatim>\<open>ConvLayer((2, 1, 1, 1), 2, 1, 1, 1, 'none', 2.0)\<close> with \<^verbatim>\<open>W\<close> set to all ones.
\<close>

definition all_ones_layer :: layer where
  "all_ones_layer =
     \<lparr>dim_in = (2, 4, 4, 1), dim_out = (2, 3, 3, 1), f = 2, n_c = 1, stride = 1, pad = 0,
      activation = ''none'', lamb = 0,
      X = np_zeros (2, 4, 4, 1), Z = np_zeros (2, 3, 3, 1), W = np_ones (2, 2, 1, 1),
      b = np_zeros (1, 1, 1, 1),
      dX = np_zeros (2, 4, 4, 1), dW = np_zeros (2, 2, 1, 1), db = np_zeros (1, 1, 1, 1),
      vW = np_zeros (2, 2, 1, 1), vb = np_zeros (1, 1, 1, 1),
      sW = np_zeros (2, 2, 1, 1), sb = np_zeros (1, 1, 1, 1),
      dZ_pad = np_zeros (2, 5, 5, 1)\<rparr>"

definition padded_layer :: layer where
  "padded_layer =
     \<lparr>dim_in = (1, 1, 1, 1), dim_out = (1, 2, 2, 1), f = 2, n_c = 1, stride = 1, pad = 1,
      activation = ''none'', lamb = 0,
      X = np_zeros (1, 1, 1, 1), Z = np_zeros (1, 2, 2, 1), W = np_ones (2, 2, 1, 1),
      b = np_zeros (1, 1, 1, 1),
      dX = np_zeros (1, 1, 1, 1), dW = np_zeros (2, 2, 1, 1), db = np_zeros (1, 1, 1, 1),
      vW = np_zeros (2, 2, 1, 1), vb = np_zeros (1, 1, 1, 1),
      sW = np_zeros (2, 2, 1, 1), sb = np_zeros (1, 1, 1, 1),
      dZ_pad = np_zeros (1, 2, 2, 1)\<rparr>"

definition regularized_layer :: layer where
  "regularized_layer =
     \<lparr>dim_in = (2, 1, 1, 1), dim_out = (2, 2, 2, 1), f = 2, n_c = 1, stride = 1, pad = 1,
      activation = ''none'', lamb = 2,
      X = np_zeros (2, 1, 1, 1), Z = np_zeros (2, 2, 2, 1), W = np_ones (2, 2, 1, 1),
      b = np_zeros (1, 1, 1, 1),
      dX = np_zeros (2, 1, 1, 1), dW = np_zeros (2, 2, 1, 1), db = np_zeros (1, 1, 1, 1),
      vW = np_zeros (2, 2, 1, 1), vb = np_zeros (1, 1, 1, 1),
      sW = np_zeros (2, 2, 1, 1), sb = np_zeros (1, 1, 1, 1),
      dZ_pad = np_zeros (2, 2, 2, 1)\<rparr>"

text \<open>The layer after \<^verbatim>\<open>forward(X)\<close>.\<close>

definition after_forward :: "layer \<Rightarrow> tensor \<Rightarrow> layer" where
  "after_forward L Xin = snd (forward L Xin)"

definition np_full :: "shape4 \<Rightarrow> real \<Rightarrow> tensor" where
  "np_full s v = \<lparr>shape = s, elems = replicate (sh0 s * sh1 s * sh2 s * sh3 s) v\<rparr>"


section \<open>Properties\<close>

lemma sh_simps [simp]:
  "sh0 (k0, k1, k2, k3) = k0" "sh1 (k0, k1, k2, k3) = k1"
  "sh2 (k0, k1, k2, k3) = k2" "sh3 (k0, k1, k2, k3) = k3"
  by (simp_all add: sh0_def sh1_def sh2_def sh3_def)

subsection \<open>Arrays and their entries\<close>

lemma shape_eq: "s = (sh0 s, sh1 s, sh2 s, sh3 s)"
  by (cases s) (auto simp: sh0_def sh1_def sh2_def sh3_def)

lemma length_concat_chunks:
  "(\<And>i. i < n \<Longrightarrow> length (F i) = k) \<Longrightarrow> length (concat (map F [0..<n])) = n * k"
  by (induction n) simp_all

lemma chunk_index_less:
  fixes i j k n :: nat
  assumes "i < n" "j < k"
  shows "i * k + j < n * k"
proof -
  have "i * k + j < i * k + k" using assms(2) by simp
  also have "\<dots> = Suc i * k" by simp
  also have "\<dots> \<le> n * k" using assms(1) by (intro mult_le_mono1) simp
  finally show ?thesis .
qed

lemma nth_concat_chunks:
  "(\<And>i. i < n \<Longrightarrow> length (F i) = k) \<Longrightarrow> i < n \<Longrightarrow> j < k
     \<Longrightarrow> concat (map F [0..<n]) ! (i * k + j) = F i ! j"
proof (induction n)
  case 0
  then show ?case by simp
next
  case (Suc n)
  have len: "length (concat (map F [0..<n])) = n * k"
    using Suc.prems(1) by (intro length_concat_chunks) simp
  show ?case
  proof (cases "i < n")
    case True
    then have "i * k + j < n * k"
      using Suc.prems(3) by (intro chunk_index_less)
    then show ?thesis
      using Suc True len by (simp add: nth_append)
  next
    case False
    then have "i = n" using Suc.prems(2) by simp
    then show ?thesis using len Suc.prems(3) by (simp add: nth_append)
  qed
qed

lemma shape_tab4 [simp]: "shape (tab4 s g) = s"
  by (simp add: tab4_def)

lemma length_tab4: "length (elems (tab4 s g)) = sh0 s * sh1 s * sh2 s * sh3 s"
  by (simp add: tab4_def length_concat_chunks [where k = "sh1 s * sh2 s * sh3 s"]
      length_concat_chunks [where k = "sh2 s * sh3 s"] length_concat_chunks [where k = "sh3 s"])

lemma well_formed_tab4 [simp]: "well_formed (tab4 s g)"
  by (simp add: well_formed_def length_tab4)

lemma flat_index_less:
  fixes t i j r :: nat
  assumes "t < n0" "i < n1" "j < n2" "r < n3"
  shows "((t * n1 + i) * n2 + j) * n3 + r < n0 * n1 * n2 * n3"
  using assms by (intro chunk_index_less) simp_all

lemma at4_tab4:
  assumes "t < sh0 s" "i < sh1 s" "j < sh2 s" "r < sh3 s"
  shows "at4 (tab4 s g) t i j r = g t i j r"
proof -
  let ?k1 = "sh1 s * sh2 s * sh3 s" and ?k2 = "sh2 s * sh3 s" and ?k3 = "sh3 s"
  let ?F3 = "\<lambda>t i j. map (g t i j) [0..<sh3 s]"
  let ?F2 = "\<lambda>t i. concat (map (?F3 t i) [0..<sh2 s])"
  let ?F1 = "\<lambda>t. concat (map (?F2 t) [0..<sh1 s])"
  have l2: "\<And>t i. length (?F2 t i) = ?k2"
    by (simp add: length_concat_chunks [where k = "sh3 s"])
  have l1: "\<And>t. length (?F1 t) = ?k1"
    using l2 by (simp add: length_concat_chunks [where k = "sh2 s * sh3 s"])
  have b3: "j * ?k3 + r < ?k2"
    using assms(3,4) by (intro chunk_index_less)
  have b2: "i * ?k2 + (j * ?k3 + r) < ?k1"
    using chunk_index_less [OF assms(2) b3] by (simp add: mult.assoc)
  have idx: "((t * sh1 s + i) * sh2 s + j) * sh3 s + r = t * ?k1 + (i * ?k2 + (j * ?k3 + r))"
    by (simp add: algebra_simps)
  have "at4 (tab4 s g) t i j r = concat (map ?F1 [0..<sh0 s]) ! (t * ?k1 + (i * ?k2 + (j * ?k3 + r)))"
    by (simp add: at4_def tab4_def idx)
  also have "\<dots> = ?F1 t ! (i * ?k2 + (j * ?k3 + r))"
    using l1 assms(1) b2 by (intro nth_concat_chunks) simp_all
  also have "\<dots> = ?F2 t i ! (j * ?k3 + r)"
    using l2 assms(2) b3 by (intro nth_concat_chunks) simp_all
  also have "\<dots> = ?F3 t i j ! r"
    using assms(3,4) by (intro nth_concat_chunks) simp_all
  also have "\<dots> = g t i j r"
    using assms(4) by simp
  finally show ?thesis .
qed

lemma tab4_cong:
  assumes "\<And>t i j r. t < sh0 s \<Longrightarrow> i < sh1 s \<Longrightarrow> j < sh2 s \<Longrightarrow> r < sh3 s
             \<Longrightarrow> g t i j r = h t i j r"
  shows "tab4 s g = tab4 s h"
proof -
  have row: "map (g t i j) [0..<sh3 s] = map (h t i j) [0..<sh3 s]"
    if "t < sh0 s" "i < sh1 s" "j < sh2 s" for t i j
    using that assms by simp
  have plane: "concat (map (\<lambda>j. map (g t i j) [0..<sh3 s]) [0..<sh2 s])
      = concat (map (\<lambda>j. map (h t i j) [0..<sh3 s]) [0..<sh2 s])"
    if "t < sh0 s" "i < sh1 s" for t i
    by (rule arg_cong [where f = concat], rule map_cong [OF refl]) (simp add: row that)
  have block: "concat (map (\<lambda>i. concat (map (\<lambda>j. map (g t i j) [0..<sh3 s]) [0..<sh2 s]))
        [0..<sh1 s])
      = concat (map (\<lambda>i. concat (map (\<lambda>j. map (h t i j) [0..<sh3 s]) [0..<sh2 s]))
        [0..<sh1 s])"
    if "t < sh0 s" for t
    by (rule arg_cong [where f = concat], rule map_cong [OF refl]) (simp add: plane that)
  have "concat (map (\<lambda>t. concat (map (\<lambda>i. concat (map (\<lambda>j. map (g t i j) [0..<sh3 s])
        [0..<sh2 s])) [0..<sh1 s])) [0..<sh0 s])
      = concat (map (\<lambda>t. concat (map (\<lambda>i. concat (map (\<lambda>j. map (h t i j) [0..<sh3 s])
        [0..<sh2 s])) [0..<sh1 s])) [0..<sh0 s])"
    by (rule arg_cong [where f = concat], rule map_cong [OF refl]) (simp add: block)
  then show ?thesis by (simp add: tab4_def)
qed

text \<open>Reading back every entry of a well-formed array gives the array.\<close>

lemma nth_tab4:
  assumes "n < sh0 s * sh1 s * sh2 s * sh3 s"
  shows "elems (tab4 s g) ! n
     = g (n div (sh1 s * sh2 s * sh3 s)) (n div (sh2 s * sh3 s) mod sh1 s)
         (n div sh3 s mod sh2 s) (n mod sh3 s)"
proof -
  let ?t = "n div (sh1 s * sh2 s * sh3 s)" and ?i = "n div (sh2 s * sh3 s) mod sh1 s"
  let ?j = "n div sh3 s mod sh2 s" and ?r = "n mod sh3 s"
  have pos: "0 < sh1 s" "0 < sh2 s" "0 < sh3 s" "0 < sh0 s"
    using assms by (auto intro: Nat.gr0I)
  have "n < sh0 s * (sh1 s * sh2 s * sh3 s)"
    using assms by (simp add: mult.assoc)
  then have t: "?t < sh0 s"
    by (rule less_mult_imp_div_less)
  have i: "?i < sh1 s" and j: "?j < sh2 s" and r: "?r < sh3 s"
    using pos by simp_all
  have "((?t * sh1 s + ?i) * sh2 s + ?j) * sh3 s + ?r = n"
  proof -
    have "?t * sh1 s + ?i = n div (sh2 s * sh3 s)"
      by (metis div_mult2_eq mult.commute mult.assoc div_mult_mod_eq)
    then have "(?t * sh1 s + ?i) * sh2 s + ?j = n div sh3 s"
      by (metis div_mult2_eq mult.commute div_mult_mod_eq)
    then show ?thesis
      by (metis div_mult_mod_eq)
  qed
  then have "elems (tab4 s g) ! n = at4 (tab4 s g) ?t ?i ?j ?r"
    by (simp add: at4_def)
  then show ?thesis using at4_tab4 [OF t i j r] by simp
qed

lemma tab4_at4:
  assumes "well_formed A"
  shows "tab4 (shape A) (at4 A) = A"
proof -
  let ?s = "shape A"
  have len: "length (elems (tab4 ?s (at4 A))) = length (elems A)"
    using assms by (simp add: length_tab4 well_formed_def)
  have "elems (tab4 ?s (at4 A)) ! n = elems A ! n" if "n < length (elems A)" for n
  proof -
    let ?t = "n div (sh1 ?s * sh2 ?s * sh3 ?s)" and ?i = "n div (sh2 ?s * sh3 ?s) mod sh1 ?s"
    let ?j = "n div sh3 ?s mod sh2 ?s" and ?r = "n mod sh3 ?s"
    have n: "n < sh0 ?s * sh1 ?s * sh2 ?s * sh3 ?s"
      using that assms by (simp add: well_formed_def)
    have "((?t * sh1 ?s + ?i) * sh2 ?s + ?j) * sh3 ?s + ?r = n"
    proof -
      have "?t * sh1 ?s + ?i = n div (sh2 ?s * sh3 ?s)"
        by (metis div_mult2_eq mult.commute mult.assoc div_mult_mod_eq)
      then have "(?t * sh1 ?s + ?i) * sh2 ?s + ?j = n div sh3 ?s"
        by (metis div_mult2_eq mult.commute div_mult_mod_eq)
      then show ?thesis
        by (metis div_mult_mod_eq)
    qed
    then show ?thesis
      using nth_tab4 [OF n, of "at4 A"] by (simp add: at4_def)
  qed
  then have "elems (tab4 ?s (at4 A)) = elems A"
    using len by (intro nth_equalityI) simp_all
  then show ?thesis by (simp add: tab4_def)
qed

subsection \<open>The end-to-end example\<close>

lemma ConvLayer_all_ones:
  "\<exists>L. ConvLayer (2, 4, 4, 1) 2 1 1 0 ''none'' 0 randn = Inr L
       \<and> L\<lparr>W := np_ones (2, 2, 1, 1)\<rparr> = all_ones_layer"
  by (simp add: ConvLayer_def int_truediv_def init_weights_def allocate_dZ_pad_def
      Let_def np_zeros_def all_ones_layer_def)

lemma ConvLayer_padded:
  "\<exists>L. ConvLayer (1, 1, 1, 1) 2 1 1 1 ''none'' 0 randn = Inr L
       \<and> L\<lparr>W := np_ones (2, 2, 1, 1)\<rparr> = padded_layer"
  by (simp add: ConvLayer_def int_truediv_def init_weights_def allocate_dZ_pad_def
      Let_def np_zeros_def padded_layer_def)

lemma forward_all_ones_layer:
  "fst (forward all_ones_layer (np_ones (2, 4, 4, 1)))
     = Inr (Some (np_full (2, 3, 3, 1) 4))"
  by code_simp

text \<open>
  C8. The layer built from \<^verbatim>\<open>input_shape = (2, 4, 4, 1)\<close>, \<^verbatim>\<open>f = 2\<close>, one output
  channel, stride 1, pad 0 and activation \<^verbatim>\<open>'none'\<close>, with \<^verbatim>\<open>W\<close> set to all ones and
  \<^verbatim>\<open>b\<close> zero, is constructed whatever the random draws, and \<^verbatim>\<open>forward\<close> on the
  all-ones input of shape \<open>(2, 4, 4, 1)\<close> returns an array of shape \<open>(2, 3, 3, 1)\<close> whose
  every entry is 4.
\<close>

theorem forward_all_ones:
  "\<exists>L. ConvLayer (2, 4, 4, 1) 2 1 1 0 ''none'' 0 randn = Inr L
       \<and> b L = np_zeros (1, 1, 1, 1)
       \<and> fst (forward (L\<lparr>W := np_ones (2, 2, 1, 1)\<rparr>) (np_ones (2, 4, 4, 1)))
           = Inr (Some \<lparr>shape = (2, 3, 3, 1), elems = replicate 18 4\<rparr>)"
proof -
  obtain L where L: "ConvLayer (2, 4, 4, 1) 2 1 1 0 ''none'' 0 randn = Inr L"
    and W1: "L\<lparr>W := np_ones (2, 2, 1, 1)\<rparr> = all_ones_layer"
    using ConvLayer_all_ones [of randn] by blast
  have "b (L\<lparr>W := np_ones (2, 2, 1, 1)\<rparr>) = np_zeros (1, 1, 1, 1)"
    unfolding W1 by (simp add: all_ones_layer_def)
  then have "b L = np_zeros (1, 1, 1, 1)" by simp
  moreover have "fst (forward (L\<lparr>W := np_ones (2, 2, 1, 1)\<rparr>) (np_ones (2, 4, 4, 1)))
      = Inr (Some \<lparr>shape = (2, 3, 3, 1), elems = replicate 18 4\<rparr>)"
    unfolding W1 forward_all_ones_layer by (simp add: np_full_def)
  ultimately show ?thesis using L by blast
qed

text \<open>
  C9. For that layer after \<^verbatim>\<open>forward\<close> on the all-ones input, \<^verbatim>\<open>backward\<close> with
  \<^verbatim>\<open>dA\<close> all ones of shape \<open>(2, 3, 3, 1)\<close> returns and leaves \<^verbatim>\<open>db\<close> with the single
  channel entry \<open>18 = 2 * 3 * 3\<close>. \<^verbatim>\<open>conv_backward\<close> has accumulated the same \<^verbatim>\<open>db\<close> in
  place when it raises at its last slice assignment.
\<close>

theorem backward_all_ones_db:
  "(\<exists>G. fst (backward (after_forward all_ones_layer (np_ones (2, 4, 4, 1)))
              (Arr4 (np_ones (2, 3, 3, 1)))) = Inr G)
   \<and> db (snd (backward (after_forward all_ones_layer (np_ones (2, 4, 4, 1)))
              (Arr4 (np_ones (2, 3, 3, 1)))))
       = \<lparr>shape = (1, 1, 1, 1), elems = [2 * 3 * 3]\<rparr>
   \<and> db (snd (conv_backward (after_forward all_ones_layer (np_ones (2, 4, 4, 1)))
              (Arr4 (np_ones (2, 3, 3, 1)))))
       = \<lparr>shape = (1, 1, 1, 1), elems = [2 * 3 * 3]\<rparr>"
proof -
  have "fst (backward (after_forward all_ones_layer (np_ones (2, 4, 4, 1)))
          (Arr4 (np_ones (2, 3, 3, 1))))
      = Inr \<lparr>shape = (2, 4, 4, 1),
             elems = [1, 2, 2, 1, 2, 4, 4, 2, 2, 4, 4, 2, 1, 2, 2, 1,
                      1, 2, 2, 1, 2, 4, 4, 2, 2, 4, 4, 2, 1, 2, 2, 1]\<rparr>"
    by code_simp
  moreover have "db (snd (backward (after_forward all_ones_layer (np_ones (2, 4, 4, 1)))
          (Arr4 (np_ones (2, 3, 3, 1)))))
      = \<lparr>shape = (1, 1, 1, 1), elems = [2 * 3 * 3]\<rparr>"
    by code_simp
  moreover have "db (snd (conv_backward (after_forward all_ones_layer (np_ones (2, 4, 4, 1)))
          (Arr4 (np_ones (2, 3, 3, 1)))))
      = \<lparr>shape = (1, 1, 1, 1), elems = [2 * 3 * 3]\<rparr>"
    by code_simp
  ultimately show ?thesis by simp
qed

subsection \<open>The two backward passes against each other\<close>

text \<open>
  C1. The two passes do not agree on every layer state. On the all-ones layer (pad 0)
  after \<^verbatim>\<open>forward\<close>, \<^verbatim>\<open>backward\<close> returns \<^verbatim>\<open>dX\<close> and \<^verbatim>\<open>conv_backward\<close> raises. On
  the layer with pad 1, where both return, they agree when the \<^verbatim>\<open>dX\<close> left in the layer
  is zero and differ by that \<^verbatim>\<open>dX\<close> when it is not.
\<close>

theorem backward_conv_backward_differ:
  "fst (backward (after_forward all_ones_layer (np_ones (2, 4, 4, 1)))
          (Arr4 (np_ones (2, 3, 3, 1))))
     = Inr \<lparr>shape = (2, 4, 4, 1),
            elems = [1, 2, 2, 1, 2, 4, 4, 2, 2, 4, 4, 2, 1, 2, 2, 1,
                     1, 2, 2, 1, 2, 4, 4, 2, 2, 4, 4, 2, 1, 2, 2, 1]\<rparr>
   \<and> fst (conv_backward (after_forward all_ones_layer (np_ones (2, 4, 4, 1)))
          (Arr4 (np_ones (2, 3, 3, 1)))) = Inl ValueError
   \<and> fst (backward (after_forward padded_layer (np_ones (1, 1, 1, 1)))
          (Arr4 (np_ones (1, 2, 2, 1)))) = Inr (np_full (1, 1, 1, 1) 4)
   \<and> fst (conv_backward (after_forward padded_layer (np_ones (1, 1, 1, 1)))
          (Arr4 (np_ones (1, 2, 2, 1)))) = Inr (np_full (1, 1, 1, 1) 4)
   \<and> fst (backward
          ((after_forward padded_layer (np_ones (1, 1, 1, 1)))\<lparr>dX := np_ones (1, 1, 1, 1)\<rparr>)
          (Arr4 (np_ones (1, 2, 2, 1)))) = Inr (np_full (1, 1, 1, 1) 4)
   \<and> fst (conv_backward
          ((after_forward padded_layer (np_ones (1, 1, 1, 1)))\<lparr>dX := np_ones (1, 1, 1, 1)\<rparr>)
          (Arr4 (np_ones (1, 2, 2, 1)))) = Inr (np_full (1, 1, 1, 1) 5)"
  by code_simp

subsection \<open>The activation derivative\<close>

text \<open>
  C2. With activation \<^verbatim>\<open>'none'\<close> the backward passes still multiply \<^verbatim>\<open>dA\<close> by
  \<open>1[Z > 0]\<close>. On the all-ones layer, \<^verbatim>\<open>forward\<close> on the input whose entries are all
  \<open>-1\<close> returns \<open>-4\<close> everywhere (the identity activation); then \<^verbatim>\<open>dZ\<close> is zero for
  \<^verbatim>\<open>dA\<close> all ones and \<^verbatim>\<open>backward\<close> leaves \<^verbatim>\<open>db = 0\<close>, where the input of all ones gives
  \<^verbatim>\<open>dZ = dA\<close> and \<^verbatim>\<open>db = 18\<close>.
\<close>

theorem backward_none_applies_relu_derivative:
  "activation all_ones_layer = ''none''
   \<and> fst (forward all_ones_layer (np_full (2, 4, 4, 1) (- 1)))
       = Inr (Some (np_full (2, 3, 3, 1) (- 4)))
   \<and> backward_dZ (after_forward all_ones_layer (np_full (2, 4, 4, 1) (- 1)))
        (Arr4 (np_ones (2, 3, 3, 1))) = Inr (np_full (2, 3, 3, 1) 0)
   \<and> db (snd (backward (after_forward all_ones_layer (np_full (2, 4, 4, 1) (- 1)))
        (Arr4 (np_ones (2, 3, 3, 1))))) = \<lparr>shape = (1, 1, 1, 1), elems = [0]\<rparr>
   \<and> db (snd (conv_backward (after_forward all_ones_layer (np_full (2, 4, 4, 1) (- 1)))
        (Arr4 (np_ones (2, 3, 3, 1))))) = \<lparr>shape = (1, 1, 1, 1), elems = [0]\<rparr>
   \<and> backward_dZ (after_forward all_ones_layer (np_full (2, 4, 4, 1) 1))
        (Arr4 (np_ones (2, 3, 3, 1))) = Inr (np_ones (2, 3, 3, 1))
   \<and> db (snd (backward (after_forward all_ones_layer (np_full (2, 4, 4, 1) 1))
        (Arr4 (np_ones (2, 3, 3, 1))))) = \<lparr>shape = (1, 1, 1, 1), elems = [18]\<rparr>"
  by code_simp

subsection \<open>Gradients left over from an earlier call\<close>

text \<open>
  C3. \<^verbatim>\<open>conv_backward\<close> adds to the \<^verbatim>\<open>dX\<close> it finds in the layer. On the layer with
  pad 1 after \<^verbatim>\<open>forward\<close>, the first call with \<^verbatim>\<open>dA\<close> all ones returns 4; a second call
  with the same \<^verbatim>\<open>dA\<close>, on the layer as the first call left it (the same \<^verbatim>\<open>X\<close>, \<^verbatim>\<open>Z\<close>,
  \<^verbatim>\<open>W\<close> and \<^verbatim>\<open>b\<close>), returns 8, while \<^verbatim>\<open>dW\<close> and \<^verbatim>\<open>db\<close> are the same after both.
\<close>

theorem conv_backward_accumulates_dX:
  "fst (conv_backward (after_forward padded_layer (np_ones (1, 1, 1, 1)))
          (Arr4 (np_ones (1, 2, 2, 1)))) = Inr (np_full (1, 1, 1, 1) 4)
   \<and> fst (conv_backward
         (snd (conv_backward (after_forward padded_layer (np_ones (1, 1, 1, 1)))
                 (Arr4 (np_ones (1, 2, 2, 1)))))
         (Arr4 (np_ones (1, 2, 2, 1)))) = Inr (np_full (1, 1, 1, 1) 8)
   \<and> snd (conv_backward (after_forward padded_layer (np_ones (1, 1, 1, 1)))
          (Arr4 (np_ones (1, 2, 2, 1))))
       = (after_forward padded_layer (np_ones (1, 1, 1, 1)))
           \<lparr>dX := np_full (1, 1, 1, 1) 4, dW := np_full (2, 2, 1, 1) 1,
            db := np_full (1, 1, 1, 1) 4\<rparr>
   \<and> snd (conv_backward
         (snd (conv_backward (after_forward padded_layer (np_ones (1, 1, 1, 1)))
                 (Arr4 (np_ones (1, 2, 2, 1)))))
         (Arr4 (np_ones (1, 2, 2, 1))))
       = (after_forward padded_layer (np_ones (1, 1, 1, 1)))
           \<lparr>dX := np_full (1, 1, 1, 1) 8, dW := np_full (2, 2, 1, 1) 1,
            db := np_full (1, 1, 1, 1) 4\<rparr>"
  by code_simp

subsection \<open>A flattened gradient\<close>

text \<open>
  C4. When \<^verbatim>\<open>backward\<close> receives a two-dimensional \<^verbatim>\<open>dA\<close> of shape \<open>(q, m)\<close> whose size
  is that of \<open>(m, H_out, W_out, C_out)\<close> with the last three taken from \<^verbatim>\<open>dim_out\<close>, it
  reshapes it to that shape before it applies the activation derivative, and the whole
  call (value returned, error raised, layer left behind) is the call on the
  four-dimensional array of that shape with the same elements in the same order.
\<close>

theorem backward_flattened_dA:
  assumes "mshape A2 = (q, m)"
    and "q * m = m * sh1 (dim_out L) * sh2 (dim_out L) * sh3 (dim_out L)"
  shows "backward_dZ L (Arr2 A2)
           = np_binop (*)
               \<lparr>shape = (m, sh1 (dim_out L), sh2 (dim_out L), sh3 (dim_out L)),
                elems = melems A2\<rparr>
               (deriv_relu (Z L))
       \<and> backward L (Arr2 A2)
           = backward L (Arr4 \<lparr>shape = (m, sh1 (dim_out L), sh2 (dim_out L), sh3 (dim_out L)),
                               elems = melems A2\<rparr>)"
  using assms by (simp add: backward_def backward_gradients_def backward_dZ_def reshape4_def)

theorem backward_flattened_dA_witness:
  "backward (after_forward all_ones_layer (np_ones (2, 4, 4, 1)))
       (Arr2 \<lparr>mshape = (9, 2), melems = replicate 18 1\<rparr>)
     = backward (after_forward all_ones_layer (np_ones (2, 4, 4, 1)))
         (Arr4 \<lparr>shape = (2, 3, 3, 1), elems = replicate 18 1\<rparr>)
   \<and> fst (backward (after_forward all_ones_layer (np_ones (2, 4, 4, 1)))
         (Arr2 \<lparr>mshape = (9, 2), melems = replicate 18 1\<rparr>))
     = Inr \<lparr>shape = (2, 4, 4, 1),
            elems = [1, 2, 2, 1, 2, 4, 4, 2, 2, 4, 4, 2, 1, 2, 2, 1,
                     1, 2, 2, 1, 2, 4, 4, 2, 2, 4, 4, 2, 1, 2, 2, 1]\<rparr>"
proof -
  have d: "dim_out (after_forward all_ones_layer (np_ones (2, 4, 4, 1))) = (2, 3, 3, 1)"
    by code_simp
  have e: "fst (backward (after_forward all_ones_layer (np_ones (2, 4, 4, 1)))
        (Arr4 \<lparr>shape = (2, 3, 3, 1), elems = replicate 18 1\<rparr>))
      = Inr \<lparr>shape = (2, 4, 4, 1),
             elems = [1, 2, 2, 1, 2, 4, 4, 2, 2, 4, 4, 2, 1, 2, 2, 1,
                      1, 2, 2, 1, 2, 4, 4, 2, 2, 4, 4, 2, 1, 2, 2, 1]\<rparr>"
    by code_simp
  show ?thesis
    using backward_flattened_dA
      [of "\<lparr>mshape = (9, 2), melems = replicate 18 1\<rparr>" 9 2
          "after_forward all_ones_layer (np_ones (2, 4, 4, 1))"]
      d e
    by simp
qed

subsection \<open>The Adam update on zero gradients\<close>

lemma np_zeros_full: "np_zeros s = np_full s 0"
  by (simp add: np_zeros_def np_full_def)

lemma shape_np_full [simp]: "shape (np_full s c) = s"
  by (simp add: np_full_def)

lemma tab4_const: "tab4 s (\<lambda>t i j r. c) = np_full s c"
proof -
  have "elems (tab4 s (\<lambda>t i j r. c)) = replicate (sh0 s * sh1 s * sh2 s * sh3 s) c"
    by (intro nth_equalityI) (simp_all add: length_tab4 nth_tab4)
  then show ?thesis by (simp add: tab4_def np_full_def)
qed

lemma bc_less: "i < n \<Longrightarrow> bc n i < n"
  by (simp add: bc_def)

lemma at4_np_full:
  "t < sh0 s \<Longrightarrow> i < sh1 s \<Longrightarrow> j < sh2 s \<Longrightarrow> r < sh3 s \<Longrightarrow> at4 (np_full s c) t i j r = c"
  by (simp add: at4_def np_full_def flat_index_less)

lemma bat4_np_full:
  "t < sh0 s \<Longrightarrow> i < sh1 s \<Longrightarrow> j < sh2 s \<Longrightarrow> r < sh3 s \<Longrightarrow> bat4 (np_full s c) t i j r = c"
  by (simp add: bat4_def at4_np_full bc_less)

lemma bshape_same [simp]: "bshape s s = Some s"
  by (cases s) (simp add: bshape_def bdim_def)

lemma np_map_full: "np_map g (np_full s c) = np_full s (g c)"
  by (simp add: np_map_def np_full_def)

lemma np_binop_full: "np_binop g (np_full s c) (np_full s d) = Inr (np_full s (g c d))"
proof -
  have "tab4 s (\<lambda>t i j r. g (bat4 (np_full s c) t i j r) (bat4 (np_full s d) t i j r))
      = tab4 s (\<lambda>t i j r. g c d)"
    by (rule tab4_cong) (simp add: bat4_np_full)
  then show ?thesis by (simp add: np_binop_def tab4_const)
qed

lemma moment_zero: "moment beta (np_zeros s) (np_zeros s) = Inr (np_zeros s)"
  by (simp add: moment_def np_zeros_full np_map_full np_binop_full)

lemma bias_corrected_zero:
  assumes "1 \<le> t" "\<bar>beta\<bar> < 1"
  shows "bias_corrected (np_zeros s) beta t = Inr (np_zeros s)"
proof -
  obtain n where n: "nat t = Suc n"
    using assms(1) by (cases "nat t") auto
  have "\<bar>beta\<bar> ^ n \<le> 1"
    using assms(2) by (intro power_le_one) simp_all
  then have "\<bar>beta\<bar> * \<bar>beta\<bar> ^ n \<le> \<bar>beta\<bar>"
    by (intro mult_left_le) simp_all
  then have "\<bar>beta ^ nat t\<bar> < 1"
    unfolding n power_abs using assms(2) by simp
  then have "1 - beta ^ nat t \<noteq> 0" by auto
  then show ?thesis
    using assms(1)
    by (simp add: bias_corrected_def py_pow_def np_div_scalar_def np_zeros_full np_map_full)
qed

lemma adam_step_zero:
  assumes "epsilon \<noteq> 0"
  shows "adam_step rate epsilon (np_zeros s) (np_zeros s) = Inr (np_zeros s)"
proof -
  have sq: "np_sqrt (np_full s 0) = Inr (np_full s 0)"
    by (simp add: np_sqrt_def np_full_def np_map_def list_ex_iff)
  have t1: "tab4 s (bat4 (np_full s epsilon)) = tab4 s (\<lambda>t i j r. epsilon)"
    by (rule tab4_cong) (simp add: bat4_np_full)
  have t2: "tab4 s (\<lambda>t i j r. bat4 (np_full s 0) t i j r / bat4 (np_full s epsilon) t i j r)
      = tab4 s (\<lambda>t i j r. 0)"
    by (rule tab4_cong) (simp add: bat4_np_full)
  have "np_divide (np_full s 0) (np_full s epsilon) = Inr (np_full s 0)"
    using assms by (simp add: np_divide_def t1 t2 tab4_const) (simp add: np_full_def list_ex_iff)
  then show ?thesis
    by (simp add: adam_step_def np_zeros_full sq np_map_full)
qed

lemma np_inplace_minus_zero:
  assumes "well_formed A"
  shows "np_inplace (-) A (np_zeros (shape A)) = Inr A"
proof -
  have "tab4 (shape A) (\<lambda>t i j r. at4 A t i j r - bat4 (np_full (shape A) 0) t i j r)
      = tab4 (shape A) (at4 A)"
    by (rule tab4_cong) (simp add: bat4_np_full)
  then show ?thesis
    using assms by (simp add: np_inplace_def np_zeros_full tab4_at4)
qed

text \<open>
  C7. For a layer whose four moment buffers are zero (as the constructor leaves them) and
  whose \<^verbatim>\<open>dW\<close> and \<^verbatim>\<open>db\<close> are zero, \<^verbatim>\<open>update_parameters\<close> with a step index
  \<open>t \<ge> 1\<close>, decay rates of magnitude below 1 and a non-zero \<^verbatim>\<open>epsilon\<close> raises nothing
  and leaves the whole layer as it was: \<^verbatim>\<open>W\<close>, \<^verbatim>\<open>b\<close> and the moments. So does any
  sequence of such calls.
\<close>

theorem update_parameters_zero_gradient:
  assumes moments: "vW L = np_zeros (shape (W L))" "sW L = np_zeros (shape (W L))"
      "vb L = np_zeros (shape (b L))" "sb L = np_zeros (shape (b L))"
    and gradients: "dW L = np_zeros (shape (W L))" "db L = np_zeros (shape (b L))"
    and wf: "well_formed (W L)" "well_formed (b L)"
    and params: "\<bar>beta1\<bar> < 1" "\<bar>beta2\<bar> < 1" "epsilon \<noteq> 0"
    and t: "1 \<le> t" and ts: "list_all (\<lambda>t. 1 \<le> t) ts"
  shows "update_parameters L rate t beta1 beta2 epsilon = (None, L)
       \<and> update_repeatedly L rate ts beta1 beta2 epsilon = (None, L)"
proof -
  have one: "update_parameters L rate u beta1 beta2 epsilon = (None, L)" if "1 \<le> u" for u
  proof -
    have sq: "np_map (\<lambda>x. x ^ 2) (np_zeros s) = np_zeros s" for s
      by (simp add: np_zeros_full np_map_full)
    have m: "update_moments L beta1 beta2 = (None, L)"
      using moments gradients by (simp add: update_moments_def moment_zero sq)
    show ?thesis
      using m moments that params wf
      by (simp add: update_parameters_def bias_corrected_zero adam_step_zero
          np_inplace_minus_zero)
  qed
  have "update_repeatedly L rate ts beta1 beta2 epsilon = (None, L)"
    using ts by (induction ts) (simp_all add: one)
  then show ?thesis
    using one t by simp
qed

text \<open>
  The all-ones layer as constructed, with the default \<^verbatim>\<open>beta1 = 0.9\<close>,
  \<^verbatim>\<open>beta2 = 0.999\<close> and \<^verbatim>\<open>epsilon = 1e-8\<close>.
\<close>

theorem update_parameters_zero_gradient_witness:
  "update_parameters all_ones_layer (1 / 1000) 1 (9 / 10) (999 / 1000) (1 / 100000000)
     = (None, all_ones_layer)
   \<and> update_repeatedly all_ones_layer (1 / 1000) [1, 2, 3] (9 / 10) (999 / 1000)
       (1 / 100000000) = (None, all_ones_layer)"
  by (rule update_parameters_zero_gradient)
    (simp_all add: all_ones_layer_def well_formed_def np_ones_def np_zeros_def)

subsection \<open>Unpadding in the naive pass\<close>

lemma py_slice_zero: "py_slice (Some 0) (Some 0) 1 n = Inr []"
  by (simp add: py_slice_def Let_def)

lemma py_slice_pad:
  assumes "1 \<le> p"
  shows "py_slice (Some p) (Some (- p)) 1 (n + 2 * nat p) = Inr (map (\<lambda>k. nat p + k) [0..<n])"
proof -
  have "map (\<lambda>k. nat (p + int k)) [0..<n] = map (\<lambda>k. nat p + k) [0..<n]"
    using assms by (intro map_cong refl) (simp add: nat_add_distrib)
  then show ?thesis
    using assms by (simp add: py_slice_def Let_def min_def max_def)
qed

lemma shape_getitem [simp]:
  "shape (getitem A I0 I1 I2 I3) = (length I0, length I1, length I2, length I3)"
  by (simp add: getitem_def)

lemma shape_np_pad: "np_pad A p = Inr P \<Longrightarrow>
    shape P = (sh0 (shape A), sh1 (shape A) + 2 * nat p, sh2 (shape A) + 2 * nat p, sh3 (shape A))"
  by (auto simp: np_pad_def Let_def split: if_splits)

lemma shape_setitem: "setitem g A I0 I1 I2 I3 B = Inr A' \<Longrightarrow> shape A' = shape A"
  by (auto simp: setitem_def Let_def split: if_splits)

lemma unpad_slice_no_padding:
  assumes "pad L = 0"
  shows "unpad_slice L dx_pad
     = Inr (getitem dx_pad [0..<sh0 (shape dx_pad)] [] [] [0..<sh3 (shape dx_pad)])"
  using assms by (simp add: unpad_slice_def py_slice_zero Let_def)

lemma bdim_zero: "bdim n 0 = Some n \<longleftrightarrow> n = 0"
  by (auto simp: bdim_def)

lemma unpad_no_padding:
  assumes "pad L = 0" "sh1 (shape (dX L)) \<noteq> 0 \<or> sh2 (shape (dX L)) \<noteq> 0"
  shows "unpad L dx_pad = Inl ValueError"
proof -
  have "bshape (shape (dX L)) (sh0 (shape dx_pad), 0, 0, sh3 (shape dx_pad))
      \<noteq> Some (shape (dX L))"
    using assms(2) by (cases "shape (dX L)") (auto simp: bshape_def bdim_def split: option.splits if_splits)
  then show ?thesis
    using assms(1) shape_eq [of "shape (dX L)"]
    by (simp add: unpad_def unpad_slice_no_padding setitem_def Let_def)
qed

lemma conv_step_frame:
  assumes "conv_step x_pad dZ hwc (dx_pad, L) = (res, L')"
  shows "pad L' = pad L \<and> dX L' = dX L"
  using assms
  by (cases hwc) (auto simp: conv_step_def split: sum.splits)

lemma conv_step_shape:
  assumes "conv_step x_pad dZ hwc (dx_pad, L) = (Inr dx_pad', L')"
  shows "shape dx_pad' = shape dx_pad"
  using assms
  by (cases hwc)
    (auto simp: conv_step_def step_dx_def Let_def split: sum.splits dest: shape_setitem)

lemma conv_loop_frame:
  "conv_loop x_pad dZ rng st = (res, L') \<Longrightarrow> pad L' = pad (snd st) \<and> dX L' = dX (snd st)"
proof (induction x_pad dZ rng st arbitrary: res L' rule: conv_loop.induct)
  case (1 x_pad dZ st)
  then show ?case by auto
next
  case (2 x_pad dZ hwc rest st)
  obtain r1 L1 where step: "conv_step x_pad dZ hwc st = (r1, L1)"
    by (cases "conv_step x_pad dZ hwc st")
  have fr: "pad L1 = pad (snd st) \<and> dX L1 = dX (snd st)"
    using conv_step_frame [of x_pad dZ hwc "fst st" "snd st" r1 L1] step by simp
  show ?case
  proof (cases r1)
    case (Inl e)
    then show ?thesis using "2.prems" step fr by simp
  next
    case (Inr d)
    then have "conv_loop x_pad dZ rest (d, L1) = (res, L')"
      using "2.prems" step by simp
    then have "pad L' = pad L1 \<and> dX L' = dX L1"
      using "2.IH" [OF step [symmetric] Inr] by simp
    then show ?thesis using fr by simp
  qed
qed

lemma conv_loop_shape:
  "conv_loop x_pad dZ rng st = (Inr dx_pad', L') \<Longrightarrow> shape dx_pad' = shape (fst st)"
proof (induction x_pad dZ rng st arbitrary: dx_pad' L' rule: conv_loop.induct)
  case (1 x_pad dZ st)
  then show ?case by auto
next
  case (2 x_pad dZ hwc rest st)
  obtain r1 L1 where step: "conv_step x_pad dZ hwc st = (r1, L1)"
    by (cases "conv_step x_pad dZ hwc st")
  show ?case
  proof (cases r1)
    case (Inl e)
    then show ?thesis using "2.prems" step by simp
  next
    case (Inr d)
    then have "conv_loop x_pad dZ rest (d, L1) = (Inr dx_pad', L')"
      using "2.prems" step by simp
    then have "shape dx_pad' = shape d"
      using "2.IH" [OF step [symmetric] Inr] by simp
    moreover have "shape d = shape (fst st)"
      using conv_step_shape [of x_pad dZ hwc "fst st" "snd st" d L1] step Inr by simp
    ultimately show ?thesis by simp
  qed
qed

lemma conv_backward_no_padding:
  assumes "pad L = 0" "sh1 (shape (dX L)) \<noteq> 0 \<or> sh2 (shape (dX L)) \<noteq> 0"
  shows "\<exists>e. fst (conv_gradients L dA) = Inl e \<and> fst (conv_backward L dA) = Inl e"
proof -
  let ?L1 = "L\<lparr>dW := np_zeros (shape (dW L)), db := np_zeros (shape (db L))\<rparr>"
  have un: "unpad L2 dxp = Inl ValueError"
    if "conv_loop x_pad dZ rng (dx_pad, ?L1) = (r, L2)" for x_pad dZ rng dx_pad r L2 dxp
    using conv_loop_frame [OF that] assms by (intro unpad_no_padding) simp_all
  have "\<exists>e. fst (conv_gradients L dA) = Inl e"
    unfolding conv_gradients_def Let_def
    by (auto split: ndarray.splits sum.splits prod.splits simp: un)
  then show ?thesis
    by (auto simp: conv_backward_def split: prod.splits sum.splits)
qed

lemma unpad_with_padding:
  assumes "1 \<le> pad L" "np_pad (dX L) (pad L) = Inr P" "shape dx_pad = shape P"
  shows "\<exists>S D. unpad_slice L dx_pad = Inr S \<and> shape S = shape (dX L)
           \<and> unpad L dx_pad = Inr D \<and> shape D = shape (dX L)"
proof -
  let ?d = "shape (dX L)"
  have sx: "shape dx_pad = (sh0 ?d, sh1 ?d + 2 * nat (pad L), sh2 ?d + 2 * nat (pad L), sh3 ?d)"
    using shape_np_pad [OF assms(2)] assms(3) by simp
  let ?S = "getitem dx_pad [0..<sh0 ?d] (map (\<lambda>k. nat (pad L) + k) [0..<sh1 ?d])
      (map (\<lambda>k. nat (pad L) + k) [0..<sh2 ?d]) [0..<sh3 ?d]"
  have sl: "unpad_slice L dx_pad = Inr ?S"
    using assms(1) by (simp add: unpad_slice_def sx py_slice_pad)
  have sh: "shape ?S = ?d"
    using shape_eq [of ?d] by simp
  have "\<exists>D. unpad L dx_pad = Inr D \<and> shape D = ?d"
    using sh shape_eq [of ?d] by (simp add: unpad_def sl setitem_def Let_def)
  then show ?thesis using sl sh by blast
qed

text \<open>
  C10. With \<^verbatim>\<open>pad = 0\<close> the last slice of \<^verbatim>\<open>conv_backward\<close>,
  \<^verbatim>\<open>dx_pad[:, 0:-0, 0:-0, :]\<close>, has height and width 0 whatever \<^verbatim>\<open>dx_pad\<close> is, its
  assignment to a \<^verbatim>\<open>dX\<close> of non-zero height or width raises \<open>ValueError\<close>, and
  \<^verbatim>\<open>conv_backward\<close> returns normally for no \<^verbatim>\<open>dA\<close>. With \<^verbatim>\<open>pad \<ge> 1\<close>, whenever the
  loops over the padded \<^verbatim>\<open>dX\<close> complete, the slice has the shape of \<^verbatim>\<open>dX\<close> and the
  assignment succeeds.
\<close>

theorem conv_backward_unpadding:
  "(pad L = 0 \<and> (sh1 (shape (dX L)) \<noteq> 0 \<or> sh2 (shape (dX L)) \<noteq> 0) \<longrightarrow>
      (\<exists>S. unpad_slice L dx_pad = Inr S \<and> sh1 (shape S) = 0 \<and> sh2 (shape S) = 0)
      \<and> unpad L dx_pad = Inl ValueError
      \<and> (\<exists>e. fst (conv_backward L dA) = Inl e))
   \<and> (1 \<le> pad L \<and> np_pad (dX L) (pad L) = Inr P
       \<and> conv_loop x_pad dZ rng
           (P, L\<lparr>dW := np_zeros (shape (dW L)), db := np_zeros (shape (db L))\<rparr>)
         = (Inr dx_pad', L2) \<longrightarrow>
      (\<exists>S D. unpad_slice L2 dx_pad' = Inr S \<and> shape S = shape (dX L)
           \<and> unpad L2 dx_pad' = Inr D \<and> shape D = shape (dX L)))"
proof (intro conjI impI)
  assume a: "pad L = 0 \<and> (sh1 (shape (dX L)) \<noteq> 0 \<or> sh2 (shape (dX L)) \<noteq> 0)"
  show "\<exists>S. unpad_slice L dx_pad = Inr S \<and> sh1 (shape S) = 0 \<and> sh2 (shape S) = 0"
    using a by (simp add: unpad_slice_no_padding)
  show "unpad L dx_pad = Inl ValueError"
    using a by (intro unpad_no_padding) simp_all
  show "\<exists>e. fst (conv_backward L dA) = Inl e"
    using conv_backward_no_padding [of L dA] a by blast
next
  assume a: "1 \<le> pad L \<and> np_pad (dX L) (pad L) = Inr P
      \<and> conv_loop x_pad dZ rng
          (P, L\<lparr>dW := np_zeros (shape (dW L)), db := np_zeros (shape (db L))\<rparr>)
        = (Inr dx_pad', L2)"
  then have loop: "conv_loop x_pad dZ rng
      (P, L\<lparr>dW := np_zeros (shape (dW L)), db := np_zeros (shape (db L))\<rparr>) = (Inr dx_pad', L2)"
    by simp
  have fr: "pad L2 = pad L" "dX L2 = dX L"
    using conv_loop_frame [OF loop] by simp_all
  have sh: "shape dx_pad' = shape P"
    using conv_loop_shape [OF loop] by simp
  show "\<exists>S D. unpad_slice L2 dx_pad' = Inr S \<and> shape S = shape (dX L)
      \<and> unpad L2 dx_pad' = Inr D \<and> shape D = shape (dX L)"
    using unpad_with_padding [of L2 P dx_pad'] a fr sh by simp
qed

theorem conv_backward_unpadding_witness:
  "unpad (after_forward all_ones_layer (np_ones (2, 4, 4, 1))) (np_zeros (2, 4, 4, 1))
     = Inl ValueError
   \<and> fst (conv_backward (after_forward all_ones_layer (np_ones (2, 4, 4, 1)))
         (Arr4 (np_ones (2, 3, 3, 1)))) = Inl ValueError
   \<and> (\<exists>D. unpad (after_forward padded_layer (np_ones (1, 1, 1, 1)))
             \<lparr>shape = (1, 3, 3, 1), elems = [1, 2, 1, 2, 4, 2, 1, 2, 1]\<rparr> = Inr D
         \<and> shape D = (1, 1, 1, 1))
   \<and> fst (conv_backward (after_forward padded_layer (np_ones (1, 1, 1, 1)))
         (Arr4 (np_ones (1, 2, 2, 1)))) = Inr (np_full (1, 1, 1, 1) 4)"
proof -
  let ?L0 = "after_forward all_ones_layer (np_ones (2, 4, 4, 1))"
  let ?L1 = "after_forward padded_layer (np_ones (1, 1, 1, 1))"
  let ?x = "\<lparr>shape = (1, 3, 3, 1), elems = [0, 0, 0, 0, 1, 0, 0, 0, 0]\<rparr>"
  let ?d = "\<lparr>shape = (1, 3, 3, 1), elems = [1, 2, 1, 2, 4, 2, 1, 2, 1]\<rparr>"
  let ?start = "(np_zeros (1, 3, 3, 1),
      ?L1\<lparr>dW := np_zeros (shape (dW ?L1)), db := np_zeros (shape (db ?L1))\<rparr>)"
  let ?loop = "conv_loop ?x (np_ones (1, 2, 2, 1)) (loop_range 2 2 1) ?start"
  have p0: "pad ?L0 = 0" "sh1 (shape (dX ?L0)) \<noteq> 0" by code_simp+
  have e0: "fst (conv_backward ?L0 (Arr4 (np_ones (2, 3, 3, 1)))) = Inl ValueError"
    by code_simp
  have p1: "1 \<le> pad ?L1" "np_pad (dX ?L1) (pad ?L1) = Inr (np_zeros (1, 3, 3, 1))"
    "shape (dX ?L1) = (1, 1, 1, 1)" "pad (snd ?loop) = pad ?L1" "dX (snd ?loop) = dX ?L1"
    by code_simp+
  have "fst ?loop = Inr ?d" by code_simp
  then have loop: "?loop = (Inr ?d, snd ?loop)"
    by (simp add: prod_eq_iff)
  have e1: "fst (conv_backward ?L1 (Arr4 (np_ones (1, 2, 2, 1)))) = Inr (np_full (1, 1, 1, 1) 4)"
    by code_simp
  note inst0 = conv_backward_unpadding
    [where L = ?L0 and dx_pad = "np_zeros (2, 4, 4, 1)" and dA = "Arr4 (np_ones (2, 3, 3, 1))",
      THEN conjunct1]
  note inst1 = conv_backward_unpadding
    [where L = ?L1 and P = "np_zeros (1, 3, 3, 1)" and x_pad = ?x
       and dZ = "np_ones (1, 2, 2, 1)" and rng = "loop_range 2 2 1" and dx_pad' = ?d
       and ?L2.0 = "snd ?loop", THEN conjunct2]
  have a: "unpad ?L0 (np_zeros (2, 4, 4, 1)) = Inl ValueError"
    using inst0 p0 by blast
  obtain D where D: "unpad (snd ?loop) ?d = Inr D" "shape D = shape (dX ?L1)"
    using inst1 p1(1,2) loop by blast
  have "unpad (snd ?loop) ?d = unpad ?L1 ?d"
    by (simp only: unpad_def unpad_slice_def p1(4) p1(5))
  then show ?thesis
    using a e0 e1 D p1(3) by auto
qed

subsection \<open>The regularization term\<close>

lemma bc_broadcast_less:
  assumes "bdim m n = Some m" "i < m"
  shows "bc n i < n"
  using assms by (auto simp: bdim_def bc_def split: if_splits)

lemma bat4_np_map:
  assumes "well_formed A" "bshape s (shape A) = Some s"
    and "t < sh0 s" "i < sh1 s" "j < sh2 s" "r < sh3 s"
  shows "bat4 (np_map g A) t i j r = g (bat4 A t i j r)"
proof -
  let ?u = "shape A"
  have d: "bdim (sh0 s) (sh0 ?u) = Some (sh0 s)" "bdim (sh1 s) (sh1 ?u) = Some (sh1 s)"
    "bdim (sh2 s) (sh2 ?u) = Some (sh2 s)" "bdim (sh3 s) (sh3 ?u) = Some (sh3 s)"
    using assms(2) shape_eq [of s]
    by (auto simp: bshape_def split: option.splits)
  have "((bc (sh0 ?u) t * sh1 ?u + bc (sh1 ?u) i) * sh2 ?u + bc (sh2 ?u) j) * sh3 ?u
      + bc (sh3 ?u) r < sh0 ?u * sh1 ?u * sh2 ?u * sh3 ?u"
    using d assms(3-6) by (intro flat_index_less bc_broadcast_less)
  then show ?thesis
    using assms(1) by (simp add: bat4_def at4_def np_map_def well_formed_def)
qed

lemma add_regularization_split:
  assumes "well_formed (W L)" "add_regularization L = Inr D'"
  shows "\<exists>D0. add_regularization (L\<lparr>lamb := 0\<rparr>) = Inr D0
           \<and> np_inplace (+) D0 (regularization L) = Inr D'"
proof -
  let ?s = "shape (dW L)"
  have nz: "sh0 (dim_in L) \<noteq> 0"
    using assms(2) by (auto simp: add_regularization_def split: if_splits)
  have bs: "bshape ?s (shape (W L)) = Some ?s"
    using assms(2) nz
    by (auto simp: add_regularization_def np_inplace_def regularization_def np_map_def
        split: if_splits)
  have D': "D' = tab4 ?s (\<lambda>t i j r. at4 (dW L) t i j r + bat4 (regularization L) t i j r)"
    using assms(2) nz bs
    by (simp add: add_regularization_def np_inplace_def regularization_def np_map_def)
  let ?D0 = "tab4 ?s (\<lambda>t i j r. at4 (dW L) t i j r + bat4 (regularization (L\<lparr>lamb := 0\<rparr>)) t i j r)"
  have D0: "add_regularization (L\<lparr>lamb := 0\<rparr>) = Inr ?D0"
    using nz bs by (simp add: add_regularization_def np_inplace_def regularization_def np_map_def)
  have "tab4 ?s (\<lambda>t i j r. at4 ?D0 t i j r + bat4 (regularization L) t i j r)
      = tab4 ?s (\<lambda>t i j r. at4 (dW L) t i j r + bat4 (regularization L) t i j r)"
  proof (rule tab4_cong)
    fix t i j r
    assume idx: "t < sh0 ?s" "i < sh1 ?s" "j < sh2 ?s" "r < sh3 ?s"
    have "bat4 (regularization (L\<lparr>lamb := 0\<rparr>)) t i j r = 0"
      using bat4_np_map [OF assms(1) bs idx] by (simp add: regularization_def)
    then show "at4 ?D0 t i j r + bat4 (regularization L) t i j r
        = at4 (dW L) t i j r + bat4 (regularization L) t i j r"
      using idx by (simp add: at4_tab4)
  qed
  then have "np_inplace (+) ?D0 (regularization L) = Inr D'"
    using bs by (simp add: np_inplace_def D' regularization_def np_map_def)
  then show ?thesis using D0 by blast
qed

lemma lamb_update_outwards:
  "(M\<lparr>lamb := v\<rparr>)\<lparr>dZ_pad := P\<rparr> = (M\<lparr>dZ_pad := P\<rparr>)\<lparr>lamb := v\<rparr>"
  "(M\<lparr>lamb := v\<rparr>)\<lparr>dX := P\<rparr> = (M\<lparr>dX := P\<rparr>)\<lparr>lamb := v\<rparr>"
  "(M\<lparr>lamb := v\<rparr>)\<lparr>dW := P\<rparr> = (M\<lparr>dW := P\<rparr>)\<lparr>lamb := v\<rparr>"
  "(M\<lparr>lamb := v\<rparr>)\<lparr>db := P\<rparr> = (M\<lparr>db := P\<rparr>)\<lparr>lamb := v\<rparr>"
  by simp_all

lemma gradient_steps_lamb:
  "backward_dZ (M\<lparr>lamb := v\<rparr>) dA = backward_dZ M dA"
  "allocate_dZ_pad (M\<lparr>lamb := v\<rparr>) m = allocate_dZ_pad M m"
  "embed_dZ (M\<lparr>lamb := v\<rparr>) dZ = embed_dZ M dZ"
  "backward_dX (M\<lparr>lamb := v\<rparr>) = backward_dX M"
  "backward_dW (M\<lparr>lamb := v\<rparr>) dZ = backward_dW M dZ"
  "step_dx (M\<lparr>lamb := v\<rparr>) dZ h w c dx_pad = step_dx M dZ h w c dx_pad"
  "step_dW (M\<lparr>lamb := v\<rparr>) x_pad dZ h w c = step_dW M x_pad dZ h w c"
  "step_db (M\<lparr>lamb := v\<rparr>) dZ h w c = step_db M dZ h w c"
  "unpad (M\<lparr>lamb := v\<rparr>) dx_pad = unpad M dx_pad"
  by (simp_all add: backward_dZ_def allocate_dZ_pad_def embed_dZ_def backward_dX_def
      backward_dW_def step_dx_def step_dW_def step_db_def unpad_def unpad_slice_def Let_def
      cong: sum.case_cong ndarray.case_cong if_cong)

lemma backward_gradients_lamb:
  "backward_gradients (L\<lparr>lamb := v\<rparr>) dA
     = (case backward_gradients L dA of (res, L4) \<Rightarrow> (res, L4\<lparr>lamb := v\<rparr>))"
  by (simp add: backward_gradients_def Let_def lamb_update_outwards gradient_steps_lamb
      split: sum.splits)

lemma backward_gradients_frame:
  assumes "backward_gradients L dA = (res, L4)"
  shows "W L4 = W L \<and> lamb L4 = lamb L \<and> dim_in L4 = dim_in L"
  using assms
  by (auto simp: backward_gradients_def Let_def split: sum.splits if_splits)

lemma conv_step_lamb:
  "conv_step x_pad dZ hwc (dx_pad, L\<lparr>lamb := v\<rparr>)
     = (case conv_step x_pad dZ hwc (dx_pad, L) of (res, L') \<Rightarrow> (res, L'\<lparr>lamb := v\<rparr>))"
  by (cases hwc)
    (simp add: conv_step_def lamb_update_outwards gradient_steps_lamb split: sum.splits)

lemma conv_loop_lamb:
  "conv_loop x_pad dZ rng (dx_pad, L\<lparr>lamb := v\<rparr>)
     = (case conv_loop x_pad dZ rng (dx_pad, L) of (res, L') \<Rightarrow> (res, L'\<lparr>lamb := v\<rparr>))"
proof (induction rng arbitrary: dx_pad L)
  case Nil
  then show ?case by simp
next
  case (Cons hwc rest)
  obtain r1 L1 where step: "conv_step x_pad dZ hwc (dx_pad, L) = (r1, L1)"
    by (cases "conv_step x_pad dZ hwc (dx_pad, L)")
  show ?case
    by (cases r1) (simp_all add: conv_step_lamb step Cons.IH)
qed

lemma conv_step_frame2:
  assumes "conv_step x_pad dZ hwc (dx_pad, L) = (res, L')"
  shows "W L' = W L \<and> lamb L' = lamb L \<and> dim_in L' = dim_in L"
  using assms
  by (cases hwc) (auto simp: conv_step_def split: sum.splits)

lemma conv_loop_frame2:
  "conv_loop x_pad dZ rng (dx_pad, L) = (res, L')
     \<Longrightarrow> W L' = W L \<and> lamb L' = lamb L \<and> dim_in L' = dim_in L"
proof (induction rng arbitrary: dx_pad L)
  case Nil
  then show ?case by auto
next
  case (Cons hwc rest)
  obtain r1 L1 where step: "conv_step x_pad dZ hwc (dx_pad, L) = (r1, L1)"
    by (cases "conv_step x_pad dZ hwc (dx_pad, L)")
  show ?case
  proof (cases r1)
    case (Inl e)
    then show ?thesis using Cons.prems step conv_step_frame2 [OF step] by simp
  next
    case (Inr d)
    then have "conv_loop x_pad dZ rest (d, L1) = (res, L')"
      using Cons.prems step by simp
    then show ?thesis using Cons.IH conv_step_frame2 [OF step] by metis
  qed
qed

lemma conv_gradients_lamb:
  "conv_gradients (L\<lparr>lamb := v\<rparr>) dA
     = (case conv_gradients L dA of (res, L3) \<Rightarrow> (res, L3\<lparr>lamb := v\<rparr>))"
  by (simp add: conv_gradients_def Let_def lamb_update_outwards gradient_steps_lamb
      conv_loop_lamb np_pad_def split: ndarray.splits sum.splits prod.splits)

lemma conv_gradients_frame:
  assumes "conv_gradients L dA = (res, L3)"
  shows "W L3 = W L \<and> lamb L3 = lamb L \<and> dim_in L3 = dim_in L"
proof -
  have "W L2 = W L \<and> lamb L2 = lamb L \<and> dim_in L2 = dim_in L"
    if "conv_loop x_pad dZ rng
          (dx_pad, L\<lparr>dW := np_zeros (shape (dW L)), db := np_zeros (shape (db L))\<rparr>) = (r, L2)"
    for x_pad dZ rng dx_pad r L2
    using conv_loop_frame2 [OF that] by simp
  then show ?thesis
    using assms
    by (auto simp: conv_gradients_def Let_def split: ndarray.splits sum.splits prod.splits)
qed

text \<open>
  C6. Whenever one of the backward passes returns, the \<^verbatim>\<open>dW\<close> it leaves is the \<^verbatim>\<open>dW\<close>
  that the same call leaves on the same layer with \<^verbatim>\<open>lamb = 0\<close>, plus (added in place)
  the array \<open>lamb / dim_in[0] * W\<close>, where \<^verbatim>\<open>dim_in[0]\<close> is the field the constructor set,
  whatever the batch size of the call.
\<close>

theorem regularization_term:
  assumes "well_formed (W L)"
  shows "regularization L = np_map (\<lambda>w. lamb L / real (sh0 (dim_in L)) * w) (W L)
       \<and> (backward L dA = (Inr G, L') \<longrightarrow>
            (\<exists>L0. backward (L\<lparr>lamb := 0\<rparr>) dA = (Inr G, L0)
               \<and> np_inplace (+) (dW L0) (regularization L) = Inr (dW L')))
       \<and> (conv_backward L dA = (Inr G, L') \<longrightarrow>
            (\<exists>L0. conv_backward (L\<lparr>lamb := 0\<rparr>) dA = (Inr G, L0)
               \<and> np_inplace (+) (dW L0) (regularization L) = Inr (dW L')))"
proof (intro conjI impI)
  show "regularization L = np_map (\<lambda>w. lamb L / real (sh0 (dim_in L)) * w) (W L)"
    by (simp add: regularization_def)
next
  assume call: "backward L dA = (Inr G, L')"
  then obtain dZ L4 dW' where g: "backward_gradients L dA = (Inr (G, dZ), L4)"
    and r: "add_regularization L4 = Inr dW'"
    and L': "L' = L4\<lparr>dW := dW', db := backward_db dZ\<rparr>"
    by (auto simp: backward_def split: prod.splits sum.splits)
  have fr: "W L4 = W L" "lamb L4 = lamb L" "dim_in L4 = dim_in L"
    using backward_gradients_frame [OF g] by simp_all
  then have reg: "regularization L4 = regularization L"
    by (simp add: regularization_def)
  obtain D0 where D0: "add_regularization (L4\<lparr>lamb := 0\<rparr>) = Inr D0"
    and sum: "np_inplace (+) D0 (regularization L4) = Inr dW'"
    using add_regularization_split [OF _ r] assms fr by auto
  have "backward (L\<lparr>lamb := 0\<rparr>) dA = (Inr G, L4\<lparr>lamb := 0, dW := D0, db := backward_db dZ\<rparr>)"
    by (simp add: backward_def backward_gradients_lamb g D0)
  then show "\<exists>L0. backward (L\<lparr>lamb := 0\<rparr>) dA = (Inr G, L0)
      \<and> np_inplace (+) (dW L0) (regularization L) = Inr (dW L')"
    using sum reg L' by simp
next
  assume call: "conv_backward L dA = (Inr G, L')"
  then obtain L3 dW' where g: "conv_gradients L dA = (Inr G, L3)"
    and r: "add_regularization L3 = Inr dW'"
    and L': "L' = L3\<lparr>dW := dW'\<rparr>"
    by (auto simp: conv_backward_def split: prod.splits sum.splits)
  have fr: "W L3 = W L" "lamb L3 = lamb L" "dim_in L3 = dim_in L"
    using conv_gradients_frame [OF g] by simp_all
  then have reg: "regularization L3 = regularization L"
    by (simp add: regularization_def)
  obtain D0 where D0: "add_regularization (L3\<lparr>lamb := 0\<rparr>) = Inr D0"
    and sum: "np_inplace (+) D0 (regularization L3) = Inr dW'"
    using add_regularization_split [OF _ r] assms fr by auto
  have "conv_backward (L\<lparr>lamb := 0\<rparr>) dA = (Inr G, L3\<lparr>lamb := 0, dW := D0\<rparr>)"
    by (simp add: conv_backward_def conv_gradients_lamb g D0)
  then show "\<exists>L0. conv_backward (L\<lparr>lamb := 0\<rparr>) dA = (Inr G, L0)
      \<and> np_inplace (+) (dW L0) (regularization L) = Inr (dW L')"
    using sum reg L' by simp
qed

text \<open>
  The layer built for batches of two, after \<^verbatim>\<open>forward\<close> on a batch of one: the term
  added is \<open>2 / 2 * W\<close>, not \<open>2 / 1 * W\<close>.
\<close>

theorem regularization_term_witness:
  "sh0 (dim_in (after_forward regularized_layer (np_ones (1, 1, 1, 1)))) = 2
   \<and> sh0 (shape (X (after_forward regularized_layer (np_ones (1, 1, 1, 1))))) = 1
   \<and> regularization (after_forward regularized_layer (np_ones (1, 1, 1, 1)))
       = np_full (2, 2, 1, 1) 1
   \<and> (\<exists>L0. backward ((after_forward regularized_layer (np_ones (1, 1, 1, 1)))\<lparr>lamb := 0\<rparr>)
               (Arr4 (np_ones (1, 2, 2, 1))) = (Inr (np_full (1, 1, 1, 1) 4), L0)
          \<and> dW L0 = np_full (2, 2, 1, 1) 1
          \<and> np_inplace (+) (dW L0)
               (regularization (after_forward regularized_layer (np_ones (1, 1, 1, 1))))
             = Inr (np_full (2, 2, 1, 1) 2))
   \<and> dW (snd (backward (after_forward regularized_layer (np_ones (1, 1, 1, 1)))
               (Arr4 (np_ones (1, 2, 2, 1))))) = np_full (2, 2, 1, 1) 2
   \<and> (\<exists>L0. conv_backward ((after_forward regularized_layer (np_ones (1, 1, 1, 1)))\<lparr>lamb := 0\<rparr>)
               (Arr4 (np_ones (1, 2, 2, 1))) = (Inr (np_full (2, 1, 1, 1) 4), L0)
          \<and> dW L0 = np_full (2, 2, 1, 1) 1
          \<and> np_inplace (+) (dW L0)
               (regularization (after_forward regularized_layer (np_ones (1, 1, 1, 1))))
             = Inr (np_full (2, 2, 1, 1) 2))
   \<and> dW (snd (conv_backward (after_forward regularized_layer (np_ones (1, 1, 1, 1)))
               (Arr4 (np_ones (1, 2, 2, 1))))) = np_full (2, 2, 1, 1) 2"
proof -
  let ?L = "after_forward regularized_layer (np_ones (1, 1, 1, 1))"
  let ?dA = "Arr4 (np_ones (1, 2, 2, 1))"
  let ?G = "np_full (1, 1, 1, 1) 4" and ?G' = "np_full (2, 1, 1, 1) 4"
  have wf: "well_formed (W ?L)" by code_simp
  have m: "sh0 (dim_in ?L) = 2" "sh0 (shape (X ?L)) = 1" by code_simp+
  have reg: "regularization ?L = np_full (2, 2, 1, 1) 1" by code_simp
  have b1: "fst (backward ?L ?dA) = Inr ?G" by code_simp
  have b2: "dW (snd (backward ?L ?dA)) = np_full (2, 2, 1, 1) 2" by code_simp
  have b3: "dW (snd (backward (?L\<lparr>lamb := 0\<rparr>) ?dA)) = np_full (2, 2, 1, 1) 1" by code_simp
  have c1: "fst (conv_backward ?L ?dA) = Inr ?G'" by code_simp
  have c2: "dW (snd (conv_backward ?L ?dA)) = np_full (2, 2, 1, 1) 2" by code_simp
  have c3: "dW (snd (conv_backward (?L\<lparr>lamb := 0\<rparr>) ?dA)) = np_full (2, 2, 1, 1) 1"
    by code_simp
  have bcall: "backward ?L ?dA = (Inr ?G, snd (backward ?L ?dA))"
    using b1 by (simp add: prod_eq_iff)
  have ccall: "conv_backward ?L ?dA = (Inr ?G', snd (conv_backward ?L ?dA))"
    using c1 by (simp add: prod_eq_iff)
  note inst = regularization_term [OF wf]
  obtain B0 where B0: "backward (?L\<lparr>lamb := 0\<rparr>) ?dA = (Inr ?G, B0)"
    "np_inplace (+) (dW B0) (regularization ?L) = Inr (dW (snd (backward ?L ?dA)))"
    using inst [of ?dA ?G "snd (backward ?L ?dA)"] bcall by blast
  obtain C0 where C0: "conv_backward (?L\<lparr>lamb := 0\<rparr>) ?dA = (Inr ?G', C0)"
    "np_inplace (+) (dW C0) (regularization ?L) = Inr (dW (snd (conv_backward ?L ?dA)))"
    using inst [of ?dA ?G' "snd (conv_backward ?L ?dA)"] ccall by blast
  have "dW B0 = np_full (2, 2, 1, 1) 1" using b3 B0(1) by simp
  moreover have "dW C0 = np_full (2, 2, 1, 1) 1" using c3 C0(1) by simp
  ultimately show ?thesis
    using m reg b2 c2 B0 C0 by auto
qed

subsection \<open>The output size\<close>

lemma int_truediv_floor: "0 \<le> a \<Longrightarrow> 0 < d \<Longrightarrow> int_truediv a d = Inr (a div d)"
  by (cases "a = 0") (simp_all add: int_truediv_def)

lemma list_all_product_lists_Cons:
  "list_all P (product_lists (A # As))
     = list_all (\<lambda>a. list_all (\<lambda>as. P (a # as)) (product_lists As)) A"
  by (auto simp: list_all_iff)

lemma window_fits:
  fixes u v k n s :: nat
  assumes "0 < s" "k \<le> n" "u < k" "v < (n - k) div s + 1"
  shows "u + v * s < n"
proof -
  have "v \<le> (n - k) div s" using assms(4) by simp
  then have "v * s \<le> (n - k) div s * s" by (rule mult_le_mono1)
  also have "\<dots> \<le> n - k" by (simp add: div_times_less_eq_dividend)
  finally show ?thesis using assms(2,3) by simp
qed

lemma forward_view_in_bounds:
  fixes k n Hp Wp C :: nat and s :: int
  assumes wf: "well_formed x_pad" and sh: "shape x_pad = (n, Hp, Wp, C)"
    and s: "0 < s" and k: "k \<le> Hp" "k \<le> Wp"
  shows "view_in_bounds
     \<lparr>base = elems x_pad,
      vshape = [k, k, C, n, nat ((int Hp - int k) div s + 1), nat ((int Wp - int k) div s + 1), 1],
      vstrides = [int (Wp * C), int C, 1, int (Hp * Wp * C), int (Wp * C) * s, int C * s, 1]\<rparr>"
proof -
  obtain d where d: "s = int d" "0 < d"
    using s zero_less_imp_eq_int by blast
  define M where "M = \<lparr>base = elems x_pad,
      vshape = [k, k, C, n, (Hp - k) div d + 1, (Wp - k) div d + 1, 1],
      vstrides = [int (Wp * C), int C, 1, int (Hp * Wp * C), int (Wp * C) * int d,
                  int C * int d, 1]\<rparr>"
  have quot: "(int m - int k) div int d = int ((m - k) div d)" if "k \<le> m" for m
    using that by (simp add: of_nat_diff zdiv_int)
  have nh: "nat ((int Hp - int k) div int d + 1) = (Hp - k) div d + 1"
    unfolding quot [OF k(1)] by (simp add: nat_add_distrib)
  have nw: "nat ((int Wp - int k) div int d + 1) = (Wp - k) div d + 1"
    unfolding quot [OF k(2)] by (simp add: nat_add_distrib)
  have len: "length (base M) = n * Hp * Wp * C"
    using wf sh by (simp add: well_formed_def M_def)
  have key: "0 \<le> offset M [u, v, r, t, y, z, w] \<and> offset M [u, v, r, t, y, z, w] < int (length (base M))"
    if "u < k" "v < k" "r < C" "t < n" "y < (Hp - k) div d + 1" "z < (Wp - k) div d + 1" "w < 1"
    for u v r t y z w
  proof -
    have i: "u + y * d < Hp" using d(2) k(1) that(1,5) by (rule window_fits)
    have j: "v + z * d < Wp" using d(2) k(2) that(2,6) by (rule window_fits)
    have "((t * Hp + (u + y * d)) * Wp + (v + z * d)) * C + r < n * Hp * Wp * C"
      using that(4) i j that(3) by (rule flat_index_less)
    moreover have "offset M [u, v, r, t, y, z, w]
        = int (((t * Hp + (u + y * d)) * Wp + (v + z * d)) * C + r)"
      using that(7) by (simp add: offset_def M_def algebra_simps)
    ultimately show ?thesis
      unfolding len by (simp only: of_nat_0_le_iff of_nat_less_iff simp_thms)
  qed
  have vs: "vshape M = [k, k, C, n, (Hp - k) div d + 1, (Wp - k) div d + 1, 1]"
    by (simp add: M_def)
  have "view_in_bounds M"
    unfolding view_in_bounds_def vs
    apply (simp only: list.map list_all_product_lists_Cons)
    apply (simp only: product_lists.simps(1) list_all_iff set_upt atLeastLessThan_iff list.set
        ball_simps simp_thms)
    apply (intro ballI)
    apply (simp only: atLeastLessThan_iff)
    apply (elim conjE)
    apply (rule key; assumption)
    done
  then show ?thesis
    unfolding M_def d(1) nh nw .
qed



lemma bshape_bias:
  "bshape (n, h, w, c) (1, 1, 1, c) = Some (n, h, w, c)"
  "bshape (n, h, w, c) (Suc 0, Suc 0, Suc 0, c) = Some (n, h, w, c)"
  by (simp_all add: bshape_def bdim_def)

lemma label_same [simp]: "label n n = Inr n"
  by (simp add: label_def bdim_def)

lemma well_formed_np_pad: "np_pad A p = Inr P \<Longrightarrow> well_formed P"
  by (auto simp: np_pad_def Let_def split: if_splits)

lemma forward_returns:
  assumes geometry: "0 < stride L" "0 \<le> pad L"
      "int (f L) \<le> int H + 2 * pad L" "int (f L) \<le> int Wd + 2 * pad L"
    and input: "shape Xin = (n, H, Wd, C)" "well_formed Xin"
    and state: "shape (W L) = (f L, f L, C, c)" "sh3 (dim_in L) = C" "shape (b L) = (1, 1, 1, c)"
    and act: "activation L = ''relu'' \<or> activation L = ''none''"
  shows "\<exists>A. fst (forward L Xin) = Inr (Some A)
           \<and> shape A = (n, nat ((int H - int (f L) + 2 * pad L) div stride L + 1),
                          nat ((int Wd - int (f L) + 2 * pad L) div stride L + 1), c)"
proof -
  let ?p = "nat (pad L)"
  let ?Hp = "H + 2 * ?p" and ?Wp = "Wd + 2 * ?p"
  let ?qh = "(int H - int (f L) + 2 * pad L) div stride L"
  let ?qw = "(int Wd - int (f L) + 2 * pad L) div stride L"
  have qh: "int_truediv (int (sh1 (shape Xin)) - int (f L) + 2 * pad L) (stride L) = Inr ?qh"
    and qw: "int_truediv (int (sh2 (shape Xin)) - int (f L) + 2 * pad L) (stride L) = Inr ?qw"
    using geometry input(1) by (simp_all add: int_truediv_floor)
  obtain x_pad where x_pad: "(if pad L \<noteq> 0 then np_pad Xin (pad L) else Inr Xin) = Inr x_pad"
    and sx: "shape x_pad = (n, ?Hp, ?Wp, C)" and wx: "well_formed x_pad"
    using geometry(2) input by (cases "pad L = 0") (simp_all add: np_pad_def Let_def)
  have fits: "f L \<le> ?Hp" "f L \<le> ?Wp"
    using geometry(2-4) by linarith+
  have qh': "?qh = (int ?Hp - int (f L)) div stride L" and qw': "?qw = (int ?Wp - int (f L)) div stride L"
    using geometry(2) by (simp_all add: algebra_simps)
  have nonneg: "0 \<le> ?qh" "0 \<le> ?qw"
    using geometry by (simp_all add: pos_imp_zdiv_nonneg_iff)
  let ?M = "\<lparr>base = elems x_pad,
      vshape = [f L, f L, C, n, nat ((int ?Hp - int (f L)) div stride L + 1),
                nat ((int ?Wp - int (f L)) div stride L + 1), 1],
      vstrides = [int (?Wp * C), int C, 1, int (?Hp * ?Wp * C), int (?Wp * C) * stride L,
                  int C * stride L, 1]\<rparr>"
  have view: "forward_view L Xin x_pad (?qh + 1) (?qw + 1) = Inr ?M"
    using nonneg state(2) input(1) sx
    by (simp add: forward_view_def as_strided_def strides_def Let_def qh' qw')
  have inb: "view_in_bounds ?M"
    using wx sx geometry(1) fits by (rule forward_view_in_bounds)
  let ?s = "(n, nat (?qh + 1), nat (?qw + 1), c)"
  obtain Z0 where Z0: "contract_forward (W L) ?M = Inr Z0" and sZ0: "shape Z0 = ?s"
    using inb state(1) by (simp add: contract_forward_def qh' qw')
  obtain Z1 where Z1: "np_binop (+) Z0 (b L) = Inr Z1" and sZ1: "shape Z1 = ?s"
    using sZ0 state(3) by (simp add: np_binop_def bshape_bias)
  have "forward L Xin
      = (if activation L = ''relu'' then (Inr (Some (relu Z1)), L\<lparr>X := Xin, Z := Z1\<rparr>)
         else if activation L = ''none'' then (Inr (Some Z1), L\<lparr>X := Xin, Z := Z1\<rparr>)
         else (Inr None, L\<lparr>X := Xin, Z := Z1\<rparr>))"
    unfolding forward_def Let_def qh qw x_pad view Z0 Z1 sum.case by simp
  then have "fst (forward L Xin) = Inr (Some (relu Z1)) \<or> fst (forward L Xin) = Inr (Some Z1)"
    using act by auto
  moreover have "shape (relu Z1) = ?s"
    using sZ1 by (simp add: relu_def np_map_def)
  ultimately show ?thesis
    using sZ1 by auto
qed

text \<open>
  C5. For a valid geometry (positive stride, non-negative pad, positive input height and
  width, and a filter that fits into the padded input) the constructor succeeds and
  stores \<open>\<lfloor>(H_in - f + 2 pad) / stride\<rfloor> + 1\<close> and the same for the width in
  \<^verbatim>\<open>dim_out\<close>; \<^verbatim>\<open>forward\<close> on any well-formed input of that height, width and channel
  count returns an array whose height and width are these two numbers again.
\<close>

theorem output_size_formula:
  assumes "0 < s" "0 \<le> p" "0 < H" "0 < Wd"
    and "int k \<le> int H + 2 * p" "int k \<le> int Wd + 2 * p"
    and "act = ''relu'' \<or> act = ''none''"
  shows "\<exists>L. ConvLayer (m, H, Wd, C) k c s p act lam randn = Inr L
           \<and> int (sh1 (dim_out L)) = (int H - int k + 2 * p) div s + 1
           \<and> int (sh2 (dim_out L)) = (int Wd - int k + 2 * p) div s + 1
           \<and> (\<forall>Xin n. shape Xin = (n, H, Wd, C) \<and> well_formed Xin \<longrightarrow>
                 (\<exists>A. fst (forward L Xin) = Inr (Some A)
                    \<and> sh0 (shape A) = n \<and> sh3 (shape A) = c
                    \<and> int (sh1 (shape A)) = (int H - int k + 2 * p) div s + 1
                    \<and> int (sh2 (shape A)) = (int Wd - int k + 2 * p) div s + 1))"
proof -
  let ?qh = "(int H - int k + 2 * p) div s" and ?qw = "(int Wd - int k + 2 * p) div s"
  have nonneg: "0 \<le> ?qh" "0 \<le> ?qw"
    using assms by (simp_all add: pos_imp_zdiv_nonneg_iff)
  have q: "int_truediv (int H - int k + 2 * p) s = Inr ?qh"
    "int_truediv (int Wd - int k + 2 * p) s = Inr ?qw"
    using assms by (simp_all add: int_truediv_floor)
  obtain L where L: "ConvLayer (m, H, Wd, C) k c s p act lam randn = Inr L"
    and fields: "dim_out L = (m, nat (1 + ?qh), nat (1 + ?qw), c)" "f L = k" "stride L = s"
      "pad L = p" "activation L = act" "shape (W L) = (k, k, C, c)" "dim_in L = (m, H, Wd, C)"
      "shape (b L) = (1, 1, 1, c)"
    using assms(3,4) nonneg
    by (simp add: ConvLayer_def q init_weights_def allocate_dZ_pad_def Let_def np_zeros_def)
  have "\<exists>A. fst (forward L Xin) = Inr (Some A)
        \<and> sh0 (shape A) = n \<and> sh3 (shape A) = c
        \<and> int (sh1 (shape A)) = ?qh + 1 \<and> int (sh2 (shape A)) = ?qw + 1"
    if xin: "shape Xin = (n, H, Wd, C)" "well_formed Xin" for Xin n
  proof -
    have g: "0 < stride L" "0 \<le> pad L" "int (f L) \<le> int H + 2 * pad L"
      "int (f L) \<le> int Wd + 2 * pad L"
      and st: "shape (W L) = (f L, f L, C, c)" "sh3 (dim_in L) = C"
      and ac: "activation L = ''relu'' \<or> activation L = ''none''"
      using assms fields by simp_all
    obtain A where "fst (forward L Xin) = Inr (Some A)"
      and "shape A = (n, nat (?qh + 1), nat (?qw + 1), c)"
      using forward_returns [OF g xin st fields(8) ac] fields(2-4) by auto
    then show ?thesis using nonneg by auto
  qed
  then show ?thesis
    using L fields(1) nonneg by auto
qed

theorem output_size_formula_witness:
  "\<exists>L. ConvLayer (2, 5, 4, 1) 2 1 2 0 ''none'' 0 (\<lambda>n. 0) = Inr L
      \<and> int (sh1 (dim_out L)) = 2 \<and> int (sh2 (dim_out L)) = 2
      \<and> (\<exists>A. fst (forward L (np_ones (3, 5, 4, 1))) = Inr (Some A)
           \<and> sh0 (shape A) = 3 \<and> sh3 (shape A) = 1
           \<and> int (sh1 (shape A)) = 2 \<and> int (sh2 (shape A)) = 2)"
proof -
  have wf: "well_formed (np_ones (3, 5, 4, 1))"
    by (simp add: well_formed_def np_ones_def)
  have sh: "shape (np_ones (3, 5, 4, 1)) = (3, 5, 4, 1)"
    by (simp add: np_ones_def)
  show ?thesis
    using output_size_formula
      [where s = 2 and p = 0 and H = 5 and Wd = 4 and k = 2 and act = "''none''" and m = 2
         and C = 1 and c = 1 and lam = 0 and randn = "\<lambda>n. 0"] wf sh
    by simp blast
qed

end
